theory Spec2Isabelle
  imports Complex_Main "HOL-Library.Word" "HOL-Library.Char_ord" "HOL-Library.List_Lexorder"
begin

section \<open>Configuration and geometry of \<open>patch_frame\<close>\<close>

text \<open>
  The six geometry arguments that \<open>patch_frame\<close> receives (\<open>main\<close> reads them from the
  argument parser and \<open>patch_frames\<close> binds them once for all frames). All are Python
  integers, so they are unbounded and may be negative.
\<close>

record patch_config =
  patch_width :: int
  patch_height :: int
  patch_x :: int
  patch_y :: int
  mirror_height :: int
  mirror_offset :: int

text \<open>The defaults that \<open>main\<close> gives the argument parser.\<close>

definition default_config :: patch_config where
  "default_config =
     \<lparr>patch_width = 110, patch_height = 110, patch_x = 0, patch_y = 0,
      mirror_height = 54, mirror_offset = 56\<rparr>"

text \<open>
  The twelve coordinates that \<open>patch_frame\<close> computes (source lines 99 to 122), under the
  names of its local variables. Rows grow downwards from the top of the frame:
  \<open>wm_*\<close> is the watermark area that is overwritten (the target rectangle),
  \<open>mirror_src_*\<close> the source of the mirrored upper part, \<open>adj_src_*\<close> the source of
  the lower part. \<open>*_start\<close> is the top or left edge, \<open>*_end\<close> the bottom or right edge
  (exclusive).
\<close>

record geometry =
  wm_y_start :: int
  wm_y_end :: int
  wm_x_start :: int
  wm_x_end :: int
  mirror_src_y_start :: int
  mirror_src_y_end :: int
  mirror_src_x_start :: int
  mirror_src_x_end :: int
  adj_src_y_start :: int
  adj_src_y_end :: int
  adj_src_x_start :: int
  adj_src_x_end :: int

definition adjacent_patch_height :: "patch_config \<Rightarrow> int" where
  "adjacent_patch_height cfg = patch_height cfg - mirror_height cfg"

definition patch_geometry :: "patch_config \<Rightarrow> nat \<Rightarrow> nat \<Rightarrow> geometry" where
  "patch_geometry cfg height width =
     \<lparr>wm_y_start = int height - (patch_y cfg + patch_height cfg),
      wm_y_end = int height - patch_y cfg,
      wm_x_start = patch_x cfg,
      wm_x_end = patch_x cfg + patch_width cfg,
      mirror_src_y_start =
        (int height - (patch_y cfg + patch_height cfg)) - mirror_offset cfg,
      mirror_src_y_end =
        (int height - (patch_y cfg + patch_height cfg)) - mirror_offset cfg + mirror_height cfg,
      mirror_src_x_start = patch_x cfg,
      mirror_src_x_end = patch_x cfg + patch_width cfg,
      adj_src_y_start = (int height - patch_y cfg) - adjacent_patch_height cfg,
      adj_src_y_end = int height - patch_y cfg,
      adj_src_x_start = patch_x cfg + patch_width cfg,
      adj_src_x_end = patch_x cfg + 2 * patch_width cfg\<rparr>"

text \<open>The defensive checks for the coordinates (source lines 125 to 130), in their order.\<close>

definition coordinates_ok :: "geometry \<Rightarrow> nat \<Rightarrow> nat \<Rightarrow> bool" where
  "coordinates_ok g height width =
     ((0 \<le> mirror_src_y_start g \<and> mirror_src_y_start g < mirror_src_y_end g
         \<and> mirror_src_y_end g \<le> int height) \<and>
      (0 \<le> mirror_src_x_start g \<and> mirror_src_x_start g < mirror_src_x_end g
         \<and> mirror_src_x_end g \<le> int width) \<and>
      (0 \<le> adj_src_y_start g \<and> adj_src_y_start g < adj_src_y_end g
         \<and> adj_src_y_end g \<le> int height) \<and>
      (0 \<le> adj_src_x_start g \<and> adj_src_x_start g < adj_src_x_end g
         \<and> adj_src_x_end g \<le> int width) \<and>
      (0 \<le> wm_y_start g \<and> wm_y_start g < wm_y_end g \<and> wm_y_end g \<le> int height) \<and>
      (0 \<le> wm_x_start g \<and> wm_x_start g < wm_x_end g \<and> wm_x_end g \<le> int width))"

text \<open>
  The geometry part of \<open>patch_frame\<close> (source lines 94 to 131) as one function of the
  configuration and the frame's height and width: \<open>None\<close> where \<open>patch_frame\<close> returns
  \<open>False\<close> from one of the two checks, the coordinates otherwise. Integer arithmetic
  and comparisons on Python integers cannot raise, so there is no error branch.
\<close>

definition resolve :: "patch_config \<Rightarrow> nat \<Rightarrow> nat \<Rightarrow> geometry option" where
  "resolve cfg height width =
     (if int height < patch_height cfg \<or> int width < patch_width cfg + patch_x cfg then None
      else if \<not> coordinates_ok (patch_geometry cfg height width) height width then None
      else Some (patch_geometry cfg height width))"

text \<open>
  The geometry in the words of the specification (its section 4.1), to be compared
  with \<open>resolve\<close>. A rectangle has a top, a bottom, a left and a right edge; the record
  of the three rectangles is the one above, with \<open>wm_*\<close> for the target, \<open>*_y_start\<close>
  for a top edge and \<open>*_y_end\<close> for a bottom edge. The specification puts the bottom
  edge of the mirror source \<open>mirrorOffset\<close> rows above the target's top edge.
\<close>

definition spec_geometry :: "patch_config \<Rightarrow> nat \<Rightarrow> nat \<Rightarrow> geometry" where
  "spec_geometry cfg frameHeight frameWidth =
     \<lparr>wm_y_start = (int frameHeight - patch_y cfg) - patch_height cfg,
      wm_y_end = int frameHeight - patch_y cfg,
      wm_x_start = patch_x cfg,
      wm_x_end = patch_x cfg + patch_width cfg,
      mirror_src_y_start =
        (((int frameHeight - patch_y cfg) - patch_height cfg) - mirror_offset cfg)
          - mirror_height cfg,
      mirror_src_y_end =
        ((int frameHeight - patch_y cfg) - patch_height cfg) - mirror_offset cfg,
      mirror_src_x_start = patch_x cfg,
      mirror_src_x_end = patch_x cfg + patch_width cfg,
      adj_src_y_start = (int frameHeight - patch_y cfg) - (patch_height cfg - mirror_height cfg),
      adj_src_y_end = int frameHeight - patch_y cfg,
      adj_src_x_start = patch_x cfg + patch_width cfg,
      adj_src_x_end = (patch_x cfg + patch_width cfg) + patch_width cfg\<rparr>"

text \<open>
  The same with the mirror source as amended for C1: its top edge, not its bottom edge,
  lies \<open>mirrorOffset\<close> rows above the target's top edge, and its bottom edge
  \<open>mirrorHeight\<close> rows below its top edge.
\<close>

definition amended_geometry :: "patch_config \<Rightarrow> nat \<Rightarrow> nat \<Rightarrow> geometry" where
  "amended_geometry cfg frameHeight frameWidth =
     \<lparr>wm_y_start = (int frameHeight - patch_y cfg) - patch_height cfg,
      wm_y_end = int frameHeight - patch_y cfg,
      wm_x_start = patch_x cfg,
      wm_x_end = patch_x cfg + patch_width cfg,
      mirror_src_y_start =
        ((int frameHeight - patch_y cfg) - patch_height cfg) - mirror_offset cfg,
      mirror_src_y_end =
        (((int frameHeight - patch_y cfg) - patch_height cfg) - mirror_offset cfg)
          + mirror_height cfg,
      mirror_src_x_start = patch_x cfg,
      mirror_src_x_end = patch_x cfg + patch_width cfg,
      adj_src_y_start = (int frameHeight - patch_y cfg) - (patch_height cfg - mirror_height cfg),
      adj_src_y_end = int frameHeight - patch_y cfg,
      adj_src_x_start = patch_x cfg + patch_width cfg,
      adj_src_x_end = (patch_x cfg + patch_width cfg) + patch_width cfg\<rparr>"

text \<open>
  The rejection condition in the words of the specification, for three given
  rectangles: a coordinate is outside when an edge is not in the range from 0 to the
  frame's height (or width); a rectangle is degenerate when its top is not above its
  bottom or its left not left of its right.
\<close>

definition coordinate_outside :: "int \<Rightarrow> int \<Rightarrow> int \<Rightarrow> int \<Rightarrow> nat \<Rightarrow> nat \<Rightarrow> bool" where
  "coordinate_outside t b l r frameHeight frameWidth =
     (t < 0 \<or> int frameHeight < t \<or> b < 0 \<or> int frameHeight < b \<or>
      l < 0 \<or> int frameWidth < l \<or> r < 0 \<or> int frameWidth < r)"

definition degenerate :: "int \<Rightarrow> int \<Rightarrow> int \<Rightarrow> int \<Rightarrow> bool" where
  "degenerate t b l r = (b \<le> t \<or> r \<le> l)"

definition rejection :: "geometry \<Rightarrow> patch_config \<Rightarrow> nat \<Rightarrow> nat \<Rightarrow> bool" where
  "rejection g cfg frameHeight frameWidth =
     (int frameHeight < patch_height cfg \<or> int frameWidth < patch_width cfg + patch_x cfg \<or>
      coordinate_outside (wm_y_start g) (wm_y_end g) (wm_x_start g) (wm_x_end g)
        frameHeight frameWidth \<or>
      coordinate_outside (mirror_src_y_start g) (mirror_src_y_end g)
        (mirror_src_x_start g) (mirror_src_x_end g) frameHeight frameWidth \<or>
      coordinate_outside (adj_src_y_start g) (adj_src_y_end g)
        (adj_src_x_start g) (adj_src_x_end g) frameHeight frameWidth \<or>
      degenerate (wm_y_start g) (wm_y_end g) (wm_x_start g) (wm_x_end g) \<or>
      degenerate (mirror_src_y_start g) (mirror_src_y_end g)
        (mirror_src_x_start g) (mirror_src_x_end g) \<or>
      degenerate (adj_src_y_start g) (adj_src_y_end g)
        (adj_src_x_start g) (adj_src_x_end g))"

definition spec_rejection :: "patch_config \<Rightarrow> nat \<Rightarrow> nat \<Rightarrow> bool" where
  "spec_rejection cfg frameHeight frameWidth =
     rejection (spec_geometry cfg frameHeight frameWidth) cfg frameHeight frameWidth"

definition amended_rejection :: "patch_config \<Rightarrow> nat \<Rightarrow> nat \<Rightarrow> bool" where
  "amended_rejection cfg frameHeight frameWidth =
     rejection (amended_geometry cfg frameHeight frameWidth) cfg frameHeight frameWidth"

section \<open>Frames as arrays\<close>

text \<open>
  \<open>cv2.imread\<close> with its default flag returns an array of shape (height, width, 3) of
  unsigned 8-bit channel values. An array is modelled by its rows, a row by its pixels,
  a pixel by its channels. \<open>patch_frame\<close> never computes with a channel value; it only
  copies pixels.
\<close>

type_synonym channel = "8 word"
type_synonym pixel = "channel list"
type_synonym frame = "pixel list list"

text \<open>
  \<open>array.shape\<close>. The width and the channel count are read off the first row and its
  first pixel; for an array with no row the model answers 0, which differs from numpy
  only on empty arrays.
\<close>

definition shape :: "frame \<Rightarrow> nat \<times> nat \<times> nat" where
  "shape a =
     (length a,
      (case a of [] \<Rightarrow> 0 | r # _ \<Rightarrow> length r),
      (case a of [] \<Rightarrow> 0 | r # _ \<Rightarrow> (case r of [] \<Rightarrow> 0 | p # _ \<Rightarrow> length p)))"

text \<open>
  The arrays \<open>cv2.imread\<close> can return: at least one row and one column, every row of
  the same width, every pixel of three channels.
\<close>

definition wf_frame :: "frame \<Rightarrow> bool" where
  "wf_frame a =
     (a \<noteq> [] \<and> 0 < fst (snd (shape a)) \<and>
      list_all (\<lambda>row. length row = fst (snd (shape a)) \<and> list_all (\<lambda>p. length p = 3) row) a)"

text \<open>
  Python's slice \<open>xs[lo:hi]\<close> for integer bounds: a negative bound counts from the end,
  and every bound is clamped to the sequence.
\<close>

definition slice_index :: "nat \<Rightarrow> int \<Rightarrow> nat" where
  "slice_index n i = (if i < 0 then nat (max 0 (int n + i)) else min n (nat i))"

definition py_slice :: "int \<Rightarrow> int \<Rightarrow> 'a list \<Rightarrow> 'a list" where
  "py_slice lo hi xs =
     take (slice_index (length xs) hi - slice_index (length xs) lo)
       (drop (slice_index (length xs) lo) xs)"

text \<open>\<open>a[y0:y1, x0:x1]\<close>: rows \<open>y0\<close> to \<open>y1\<close>, and of each the columns \<open>x0\<close> to \<open>x1\<close>.\<close>

definition np_slice2 :: "frame \<Rightarrow> int \<Rightarrow> int \<Rightarrow> int \<Rightarrow> int \<Rightarrow> frame" where
  "np_slice2 a y0 y1 x0 x1 = map (py_slice x0 x1) (py_slice y0 y1 a)"

text \<open>\<open>cv2.flip(a, 0)\<close> flips around the horizontal axis: the rows in reverse order.\<close>

definition flip0 :: "frame \<Rightarrow> frame" where
  "flip0 a = rev a"

text \<open>
  \<open>cv2.vconcat([a, b])\<close> stacks \<open>a\<close> on top of \<open>b\<close>; it raises \<open>cv2.error\<close>, which
  \<open>patch_frame\<close> catches, when the widths or the channel counts differ (\<open>None\<close> here).
\<close>

definition vconcat :: "frame \<Rightarrow> frame \<Rightarrow> frame option" where
  "vconcat a b = (if snd (shape a) = snd (shape b) then Some (a @ b) else None)"

datatype py_error = ValueError | ZeroDivisionError

datatype 'a outcome = Returned 'a | Raised py_error

text \<open>
  \<open>a[y0:y1, x0:x1] = v\<close>: every element of the selected block is replaced by the element
  of \<open>v\<close> at the same offset, every other element stays. numpy raises \<open>ValueError\<close>
  when the shape of \<open>v\<close> does not fit the block. (numpy would also stretch a \<open>v\<close> with
  an axis of length 1 over the block; that is answered with \<open>ValueError\<close> here, and
  \<open>patch_array_never_raises\<close> shows that \<open>patch_frame\<close> only assigns a \<open>v\<close> of the
  block's own shape.)
\<close>

definition assigned :: "frame \<Rightarrow> int \<Rightarrow> int \<Rightarrow> int \<Rightarrow> int \<Rightarrow> frame \<Rightarrow> frame" where
  "assigned a y0 y1 x0 x1 v =
     map (\<lambda>r. map (\<lambda>c.
         if slice_index (length a) y0 \<le> r \<and> r < slice_index (length a) y1 \<and>
            slice_index (length (a ! r)) x0 \<le> c \<and> c < slice_index (length (a ! r)) x1
         then v ! (r - slice_index (length a) y0) ! (c - slice_index (length (a ! r)) x0)
         else a ! r ! c) [0..<length (a ! r)]) [0..<length a]"

definition np_assign2 :: "frame \<Rightarrow> int \<Rightarrow> int \<Rightarrow> int \<Rightarrow> int \<Rightarrow> frame \<Rightarrow> frame outcome" where
  "np_assign2 a y0 y1 x0 x1 v =
     (if shape (np_slice2 a y0 y1 x0 x1) \<noteq> shape v then Raised ValueError
      else Returned (assigned a y0 y1 x0 x1 v))"

text \<open>
  The value of the local variable \<open>patch\<close> once both checks of the geometry have
  passed: the flipped mirror source on top of the adjacent source.
\<close>

definition patch_of :: "frame \<Rightarrow> geometry \<Rightarrow> frame" where
  "patch_of frame g =
     rev (np_slice2 frame (mirror_src_y_start g) (mirror_src_y_end g)
            (mirror_src_x_start g) (mirror_src_x_end g))
     @ np_slice2 frame (adj_src_y_start g) (adj_src_y_end g)
            (adj_src_x_start g) (adj_src_x_end g)"

text \<open>
  A block of \<open>n\<close> rows and \<open>k\<close> columns of three-channel pixels (used in the proofs to
  compare blocks element by element).
\<close>

definition uniform :: "frame \<Rightarrow> nat \<Rightarrow> nat \<Rightarrow> bool" where
  "uniform b n k =
     (length b = n \<and> (\<forall>row\<in>set b. length row = k \<and> (\<forall>p\<in>set row. length p = 3)))"

section \<open>\<open>patch_frame\<close>\<close>

text \<open>
  Source lines 93 to 158: from the decoded array to the patched array. \<open>Returned None\<close>
  is one of the \<open>return False\<close> exits, \<open>Returned (Some a)\<close> the array after the
  assignment of line 158, \<open>Raised\<close> an exception that leaves \<open>patch_frame\<close>.
\<close>

definition patch_array :: "frame \<Rightarrow> patch_config \<Rightarrow> frame option outcome" where
  "patch_array frame cfg =
     (case shape frame of (height, width, _) \<Rightarrow>
      (case resolve cfg height width of
         None \<Rightarrow> Returned None
       | Some g \<Rightarrow>
          (let mirrored_content =
                 np_slice2 frame (mirror_src_y_start g) (mirror_src_y_end g)
                   (mirror_src_x_start g) (mirror_src_x_end g);
               mirrored_content_flipped = flip0 mirrored_content
           in if int (fst (shape mirrored_content_flipped)) \<noteq> mirror_height cfg
              then Returned None
              else
               (let adjacent_content =
                      np_slice2 frame (adj_src_y_start g) (adj_src_y_end g)
                        (adj_src_x_start g) (adj_src_x_end g)
                in if int (fst (shape adjacent_content)) \<noteq> adjacent_patch_height cfg
                   then Returned None
                   else if int (fst (snd (shape mirrored_content_flipped))) \<noteq> patch_width cfg
                         \<or> int (fst (snd (shape adjacent_content))) \<noteq> patch_width cfg
                   then Returned None
                   else
                    (case vconcat mirrored_content_flipped adjacent_content of
                       None \<Rightarrow> Returned None
                     | Some patch \<Rightarrow>
                        if int (fst (shape patch)) \<noteq> patch_height cfg
                           \<or> int (fst (snd (shape patch))) \<noteq> patch_width cfg
                        then Returned None
                        else
                         (case np_assign2 frame (wm_y_start g) (wm_y_end g)
                                 (wm_x_start g) (wm_x_end g) patch of
                            Raised e \<Rightarrow> Raised e
                          | Returned frame' \<Rightarrow> Returned (Some frame')))))))"

text \<open>
  The frame files. A file either decodes to an image or does not (a corrupted file,
  kept with its bytes); the disk maps a path to its file. A PNG file stores 8-bit
  three-channel pixels without loss, so a file is modelled by the array it decodes to.
\<close>

datatype disk_file = Png frame | Undecodable string

type_synonym disk = "string \<Rightarrow> disk_file option"

text \<open>\<open>cv2.imread\<close> returns \<open>None\<close> for a file that is missing or cannot be decoded.\<close>

definition imread :: "disk \<Rightarrow> string \<Rightarrow> frame option" where
  "imread d path = (case d path of Some (Png a) \<Rightarrow> Some a | _ \<Rightarrow> None)"

text \<open>\<open>cv2.imwrite\<close> overwrites the file. (Failures of the file system are not modelled.)\<close>

definition imwrite :: "disk \<Rightarrow> string \<Rightarrow> frame \<Rightarrow> disk" where
  "imwrite d path a = d(path \<mapsto> Png a)"

text \<open>\<open>os.path.join\<close> of two components (posixpath).\<close>

definition os_path_join :: "string \<Rightarrow> string \<Rightarrow> string" where
  "os_path_join a b =
     (if b \<noteq> [] \<and> hd b = CHR ''/'' then b
      else if a = [] \<or> last a = CHR ''/'' then a @ b
      else a @ ''/'' @ b)"

definition patch_frame :: "disk \<Rightarrow> string \<Rightarrow> string \<Rightarrow> patch_config \<Rightarrow> bool outcome \<times> disk" where
  "patch_frame d fname input_dir cfg =
     (let path = os_path_join input_dir fname
      in case imread d path of
           None \<Rightarrow> (Returned False, d)
         | Some frame \<Rightarrow>
            (case patch_array frame cfg of
               Raised e \<Rightarrow> (Raised e, d)
             | Returned None \<Rightarrow> (Returned False, d)
             | Returned (Some frame') \<Rightarrow> (Returned True, imwrite d path frame')))"

section \<open>\<open>patch_frames\<close>\<close>







section \<open>\<open>get_fps\<close>\<close>

text \<open>
  A Python string is modelled by the list of its code points, each below 256 (the
  \<open>char\<close> of the model has eight bits; ffprobe prints ASCII).

  A Python float is a finite double, modelled by the rational number it denotes (the
  two zeros denote the same number), or one of the two infinities, or NaN. Conversion
  from a decimal literal and division are correctly rounded (IEEE 754 binary64, round
  to nearest, ties to even): \<open>round_finite\<close> rounds a rational that is not negative to
  a significand of 53 bits, or to a multiple of \<open>2 ^ -1074\<close> in the subnormal range, and
  \<open>round_double\<close> maps what is rounded to \<open>2 ^ 1024\<close> or more to an infinity.
\<close>

datatype pyfloat = Finite rat | PosInf | NegInf | NaN

fun bitlen :: "nat \<Rightarrow> nat" where
  "bitlen n = (if n = 0 then 0 else Suc (bitlen (n div 2)))"

definition pow2 :: "int \<Rightarrow> rat" where
  "pow2 k = (if 0 \<le> k then 2 ^ nat k else 1 / 2 ^ nat (- k))"

text \<open>For \<open>0 < q\<close>, the \<open>k\<close> with \<open>2 ^ k \<le> q < 2 ^ (k + 1)\<close>.\<close>

definition binary_exponent :: "rat \<Rightarrow> int" where
  "binary_exponent q =
     (if 1 \<le> q then int (bitlen (nat \<lfloor>q\<rfloor>)) - 1
      else - int (bitlen (nat (\<lceil>1 / q\<rceil> - 1))))"

definition round_half_even :: "rat \<Rightarrow> int" where
  "round_half_even x =
     (if x - of_int \<lfloor>x\<rfloor> < 1 / 2 then \<lfloor>x\<rfloor>
      else if 1 / 2 < x - of_int \<lfloor>x\<rfloor> then \<lfloor>x\<rfloor> + 1
      else if even \<lfloor>x\<rfloor> then \<lfloor>x\<rfloor> else \<lfloor>x\<rfloor> + 1)"

definition round_finite :: "rat \<Rightarrow> rat" where
  "round_finite q =
     (if q = 0 then 0
      else of_int (round_half_even (q / pow2 (max (binary_exponent q - 52) (- 1074))))
             * pow2 (max (binary_exponent q - 52) (- 1074)))"

definition round_double :: "rat \<Rightarrow> pyfloat" where
  "round_double q =
     (if q < 0 then (if 2 ^ 1024 \<le> round_finite (- q) then NegInf
                     else Finite (- round_finite (- q)))
      else (if 2 ^ 1024 \<le> round_finite q then PosInf else Finite (round_finite q)))"

text \<open>
  White space. \<open>str.strip()\<close> removes the characters for which \<open>str.isspace()\<close> holds;
  \<open>float\<close> skips, at both ends of its argument, the white space of C and the white
  space beyond ASCII (which it first turns into blanks).
\<close>

definition py_space :: "char \<Rightarrow> bool" where
  "py_space c = (of_char c \<in> {9, 10, 11, 12, 13, 28, 29, 30, 31, 32, 133, 160 :: nat})"

definition float_space :: "char \<Rightarrow> bool" where
  "float_space c = (of_char c \<in> {9, 10, 11, 12, 13, 32, 133, 160 :: nat})"

definition strip_with :: "(char \<Rightarrow> bool) \<Rightarrow> string \<Rightarrow> string" where
  "strip_with sp s = rev (dropWhile sp (rev (dropWhile sp s)))"

definition strip :: "string \<Rightarrow> string" where
  "strip s = strip_with py_space s"

text \<open>
  \<open>float(s)\<close> for a string: white space at both ends is skipped; an underscore is allowed
  only between two digits and is dropped; then comes an optional sign and either
  \<open>inf\<close>, \<open>infinity\<close> or \<open>nan\<close> in any case of letters, or a decimal number: digits
  with an optional point (at least one digit before or after it) and an optional
  exponent (\<open>e\<close> or \<open>E\<close>, an optional sign, at least one digit). Anything else raises
  \<open>ValueError\<close>. The number denoted by the literal is rounded to the nearest double.
\<close>

definition is_digit :: "char \<Rightarrow> bool" where
  "is_digit c = (CHR ''0'' \<le> c \<and> c \<le> CHR ''9'')"

definition nat_of_digits :: "string \<Rightarrow> nat" where
  "nat_of_digits s = foldl (\<lambda>n c. 10 * n + (of_char c - of_char CHR ''0'')) 0 s"

definition pow10 :: "int \<Rightarrow> rat" where
  "pow10 k = (if 0 \<le> k then 10 ^ nat k else 1 / 10 ^ nat (- k))"

text \<open>The flag tells whether the character before is a digit.\<close>

fun drop_underscores :: "bool \<Rightarrow> string \<Rightarrow> string option" where
  "drop_underscores after_digit [] = Some []"
| "drop_underscores after_digit (c # cs) =
     (if c = CHR ''_'' then
        (case cs of
           [] \<Rightarrow> None
         | n # _ \<Rightarrow> if after_digit \<and> is_digit n then drop_underscores False cs else None)
      else map_option ((#) c) (drop_underscores (is_digit c) cs))"

text \<open>The lower-case letter of an upper-case letter of ASCII; any other character stays.\<close>

definition lower :: "char \<Rightarrow> char" where
  "lower c =
     (case map_of (zip ''ABCDEFGHIJKLMNOPQRSTUVWXYZ'' ''abcdefghijklmnopqrstuvwxyz'') c of
        None \<Rightarrow> c
      | Some l \<Rightarrow> l)"

text \<open>The sign and the rest of a string that may begin with a sign.\<close>

definition take_sign :: "string \<Rightarrow> bool \<times> string" where
  "take_sign s =
     (case s of
        [] \<Rightarrow> (False, [])
      | c # r \<Rightarrow> if c = CHR ''+'' then (False, r) else if c = CHR ''-'' then (True, r)
                  else (False, s))"

text \<open>The number that an unsigned decimal literal denotes.\<close>

definition parse_number :: "string \<Rightarrow> rat option" where
  "parse_number s =
     (let ip = takeWhile is_digit s;
          r1 = dropWhile is_digit s;
          fp = (case r1 of [] \<Rightarrow> [] | c # r \<Rightarrow> if c = CHR ''.'' then takeWhile is_digit r else []);
          r2 = (case r1 of [] \<Rightarrow> [] | c # r \<Rightarrow> if c = CHR ''.'' then dropWhile is_digit r else r1)
      in if ip = [] \<and> fp = [] then None
         else
          (case r2 of
             [] \<Rightarrow> Some (of_nat (nat_of_digits (ip @ fp)) * pow10 (- int (length fp)))
           | c # r \<Rightarrow>
              if c = CHR ''e'' \<or> c = CHR ''E'' then
                (case take_sign r of
                   (neg, ds) \<Rightarrow>
                     if ds \<noteq> [] \<and> list_all is_digit ds then
                       Some (of_nat (nat_of_digits (ip @ fp))
                             * pow10 ((if neg then - int (nat_of_digits ds)
                                       else int (nat_of_digits ds)) - int (length fp)))
                     else None)
              else None))"

definition float_value :: "string \<Rightarrow> pyfloat option" where
  "float_value s =
     (case drop_underscores False (strip_with float_space s) of
        None \<Rightarrow> None
      | Some s' \<Rightarrow>
         (case take_sign s' of
            (neg, u) \<Rightarrow>
              if map lower u = ''inf'' \<or> map lower u = ''infinity''
              then Some (if neg then NegInf else PosInf)
              else if map lower u = ''nan'' then Some NaN
              else (case parse_number u of
                      None \<Rightarrow> None
                    | Some q \<Rightarrow> Some (round_double (if neg then - q else q)))))"

definition float_str :: "string \<Rightarrow> pyfloat outcome" where
  "float_str s = (case float_value s of None \<Rightarrow> Raised ValueError | Some x \<Rightarrow> Returned x)"

text \<open>
  The quotient of two floats for a divisor that is not zero (IEEE 754: the rounded
  quotient of two finite numbers; zero for a finite number over an infinity; an
  infinity, with the sign of the quotient, for an infinity over a finite number; NaN
  for an infinity over an infinity and whenever NaN takes part).
\<close>

fun float_div :: "pyfloat \<Rightarrow> pyfloat \<Rightarrow> pyfloat" where
  "float_div (Finite x) (Finite y) = round_double (x / y)"
| "float_div (Finite x) PosInf = Finite 0"
| "float_div (Finite x) NegInf = Finite 0"
| "float_div PosInf (Finite y) = (if 0 < y then PosInf else NegInf)"
| "float_div NegInf (Finite y) = (if 0 < y then NegInf else PosInf)"
| "float_div PosInf PosInf = NaN"
| "float_div PosInf NegInf = NaN"
| "float_div NegInf PosInf = NaN"
| "float_div NegInf NegInf = NaN"
| "float_div NaN b = NaN"
| "float_div a NaN = NaN"

text \<open>\<open>a / b\<close> on floats raises \<open>ZeroDivisionError\<close> for a zero divisor.\<close>

definition truediv :: "pyfloat \<Rightarrow> pyfloat \<Rightarrow> pyfloat outcome" where
  "truediv a b = (if b = Finite 0 then Raised ZeroDivisionError else Returned (float_div a b))"

text \<open>\<open>s.split(sep)\<close> for a separator of one character.\<close>

fun split :: "char \<Rightarrow> string \<Rightarrow> string list" where
  "split sep [] = [[]]"
| "split sep (c # cs) =
     (if c = sep then [] # split sep cs
      else (case split sep cs of [] \<Rightarrow> [[c]] | p # ps \<Rightarrow> (c # p) # ps))"

text \<open>
  \<open>get_fps\<close> from the text that ffprobe wrote to its standard output. Unpacking
  \<open>num, denom = map(float, ...)\<close> raises \<open>ValueError\<close> when a part is no number or
  when there are more than two parts. A float is true when it is not zero.
\<close>

definition get_fps :: "string \<Rightarrow> pyfloat outcome" where
  "get_fps stdout =
     (let fps_str = strip stdout
      in if CHR ''/'' \<in> set fps_str then
           (case split CHR ''/'' fps_str of
              [n, d] \<Rightarrow>
                (case float_str n of
                   Raised e \<Rightarrow> Raised e
                 | Returned num \<Rightarrow>
                    (case float_str d of
                       Raised e \<Rightarrow> Raised e
                     | Returned denom \<Rightarrow>
                        if denom \<noteq> Finite 0 then truediv num denom else Returned num))
            | _ \<Rightarrow> Raised ValueError)
         else float_str fps_str)"

section \<open>Example inputs\<close>

text \<open>
  A small configuration with a frame of 7 rows and 6 columns that it accepts (the pixel
  in row \<open>r\<close> and column \<open>c\<close> has the channels \<open>r\<close>, \<open>c\<close> and \<open>10 * r + c\<close>), and a
  directory of ten frame files of which the third and the seventh cannot be decoded.
  They are the inputs at which the theorems below are evaluated.
\<close>

definition example_config :: patch_config where
  "example_config =
     \<lparr>patch_width = 2, patch_height = 3, patch_x = 1, patch_y = 1,
      mirror_height = 2, mirror_offset = 2\<rparr>"

text \<open>The same configuration with a mirror source that begins at the target's top edge.\<close>

definition overlap_config :: patch_config where
  "overlap_config =
     \<lparr>patch_width = 2, patch_height = 3, patch_x = 1, patch_y = 1,
      mirror_height = 2, mirror_offset = 0\<rparr>"

definition example_frame :: frame where
  "example_frame =
     [[[0, 0, 0], [0, 1, 1], [0, 2, 2], [0, 3, 3], [0, 4, 4], [0, 5, 5]],
      [[1, 0, 10], [1, 1, 11], [1, 2, 12], [1, 3, 13], [1, 4, 14], [1, 5, 15]],
      [[2, 0, 20], [2, 1, 21], [2, 2, 22], [2, 3, 23], [2, 4, 24], [2, 5, 25]],
      [[3, 0, 30], [3, 1, 31], [3, 2, 32], [3, 3, 33], [3, 4, 34], [3, 5, 35]],
      [[4, 0, 40], [4, 1, 41], [4, 2, 42], [4, 3, 43], [4, 4, 44], [4, 5, 45]],
      [[5, 0, 50], [5, 1, 51], [5, 2, 52], [5, 3, 53], [5, 4, 54], [5, 5, 55]],
      [[6, 0, 60], [6, 1, 61], [6, 2, 62], [6, 3, 63], [6, 4, 64], [6, 5, 65]]]"

definition example_disk :: disk where
  "example_disk = map_of
     [(''frames/frame_00001.png'', Png example_frame),
      (''frames/frame_00002.png'', Png example_frame),
      (''frames/frame_00003.png'', Undecodable ''truncated''),
      (''frames/frame_00004.png'', Png example_frame),
      (''frames/frame_00005.png'', Png example_frame),
      (''frames/frame_00006.png'', Png example_frame),
      (''frames/frame_00007.png'', Undecodable ''truncated''),
      (''frames/frame_00008.png'', Png example_frame),
      (''frames/frame_00009.png'', Png example_frame),
      (''frames/frame_00010.png'', Png example_frame)]"


section \<open>The geometry\<close>

lemma resolve_Some_iff:
  "resolve cfg h w = Some g \<longleftrightarrow>
     (patch_height cfg \<le> int h \<and> patch_width cfg + patch_x cfg \<le> int w \<and>
      coordinates_ok (patch_geometry cfg h w) h w \<and> g = patch_geometry cfg h w)"
  by (auto simp: resolve_def)

lemma resolve_default_720:
  "resolve default_config 720 1280 = Some (patch_geometry default_config 720 1280)"
  by (simp add: resolve_def coordinates_ok_def patch_geometry_def default_config_def
      adjacent_patch_height_def)

lemma resolve_default_166:
  "resolve default_config 166 220 = Some (patch_geometry default_config 166 220)"
  by (simp add: resolve_def coordinates_ok_def patch_geometry_def default_config_def
      adjacent_patch_height_def)

text \<open>
  C1, as the specification states it, fails. With the default configuration and a frame
  of 720 rows and 1280 columns the geometry is accepted, the target's top edge is row
  610 and the mirror source's bottom edge is row 608, which is not
  \<open>610 - mirror_offset = 554\<close>.
\<close>

theorem mirror_source_bottom_counterexample:
  "resolve default_config 720 1280 = Some (patch_geometry default_config 720 1280) \<and>
   wm_y_start (patch_geometry default_config 720 1280) = 610 \<and>
   mirror_src_y_end (patch_geometry default_config 720 1280) = 608 \<and>
   mirror_src_y_end (patch_geometry default_config 720 1280) \<noteq>
     wm_y_start (patch_geometry default_config 720 1280) - mirror_offset default_config"
  by (simp add: resolve_default_720) (simp add: patch_geometry_def default_config_def)

text \<open>
  C1, amended: for every configuration and frame size that the geometry check accepts,
  the top edge of the mirror source lies \<open>mirror_offset\<close> rows above the top edge of the
  target, its bottom edge lies \<open>mirror_height\<close> rows below its own top edge, and its
  left and right edges are those of the target.
\<close>

theorem mirror_source_position:
  "resolve cfg h w = Some g \<Longrightarrow>
     mirror_src_y_start g = wm_y_start g - mirror_offset cfg \<and>
     mirror_src_y_end g = mirror_src_y_start g + mirror_height cfg \<and>
     mirror_src_x_start g = wm_x_start g \<and>
     mirror_src_x_end g = wm_x_end g"
  by (auto simp: resolve_Some_iff patch_geometry_def)

theorem mirror_source_position_witness:
  "resolve default_config 720 1280 = Some (patch_geometry default_config 720 1280) \<and>
   mirror_src_y_start (patch_geometry default_config 720 1280) = 610 - 56 \<and>
   mirror_src_y_end (patch_geometry default_config 720 1280) = 554 + 54 \<and>
   mirror_src_x_start (patch_geometry default_config 720 1280) = 0 \<and>
   mirror_src_x_end (patch_geometry default_config 720 1280) = 110"
  using mirror_source_position [OF resolve_default_720] resolve_default_720
  by (simp add: patch_geometry_def default_config_def)

text \<open>
  C3, as the specification states it, fails: with the rectangles of the specification
  the condition rejects the default configuration on a frame of 166 rows and 220
  columns (the mirror source of the specification would begin at row -54), and
  \<open>patch_frame\<close> accepts it.
\<close>

theorem resolve_spec_rejection_counterexample:
  "resolve default_config 166 220 = Some (patch_geometry default_config 166 220) \<and>
   spec_rejection default_config 166 220 \<and>
   mirror_src_y_start (spec_geometry default_config 166 220) = - 54 \<and>
   mirror_src_y_start (patch_geometry default_config 166 220) = 0"
  by (simp add: resolve_default_166)
    (simp add: spec_rejection_def rejection_def spec_geometry_def coordinate_outside_def
      patch_geometry_def default_config_def)

text \<open>
  C3, amended: the geometry check rejects exactly when the frame is lower than the
  patch, or narrower than the patch's width plus its horizontal offset, or one of the
  three rectangles (the target and the adjacent source as the specification defines
  them, the mirror source with its top edge \<open>mirrorOffset\<close> rows above the target's top
  edge and its bottom edge \<open>mirrorHeight\<close> rows below its top edge) has a coordinate
  outside the frame, or one of them is degenerate. The check is a total function of
  integers: there is no input on which it raises.
\<close>

theorem resolve_rejects_iff:
  "resolve cfg h w = None \<longleftrightarrow> amended_rejection cfg h w"
  unfolding resolve_def amended_rejection_def rejection_def coordinates_ok_def
    coordinate_outside_def degenerate_def
  by (simp add: patch_geometry_def amended_geometry_def adjacent_patch_height_def) linarith

theorem resolve_rejects_iff_witness:
  "resolve default_config 110 110 = None \<and> amended_rejection default_config 110 110 \<and>
   resolve default_config 166 220 \<noteq> None \<and> \<not> amended_rejection default_config 166 220"
proof -
  have r: "resolve default_config 110 110 = None"
    by (simp add: resolve_def coordinates_ok_def patch_geometry_def default_config_def
        adjacent_patch_height_def)
  have a: "resolve default_config 166 220 \<noteq> None"
    by (simp add: resolve_default_166)
  from r have "amended_rejection default_config 110 110"
    by (simp add: resolve_rejects_iff [of default_config 110 110, symmetric])
  moreover from a have "\<not> amended_rejection default_config 166 220"
    by (simp add: resolve_rejects_iff [of default_config 166 220, symmetric])
  ultimately show ?thesis using r a by simp
qed

text \<open>
  C4, as the specification states it, fails: a frame of 110 rows and 110 columns is as
  high as the default patch and as wide as the patch's width plus its offset, and the
  geometry check rejects it (the mirror source would begin 56 rows above the frame).
\<close>

theorem resolve_minimum_size_counterexample:
  "patch_height default_config \<le> int 110 \<and>
   patch_width default_config + patch_x default_config \<le> int 110 \<and>
   resolve default_config 110 110 = None \<and>
   mirror_src_y_start (patch_geometry default_config 110 110) = - 56"
  by (simp add: resolve_def coordinates_ok_def patch_geometry_def default_config_def
      adjacent_patch_height_def)

text \<open>
  C4, amended: whenever the geometry check accepts a configuration and a frame size
  (which takes more than the two size conditions: all three rectangles must lie in the
  frame and none may be degenerate), the heights of the mirror source and of the
  adjacent source add up to the height of the target, which is \<open>patch_height\<close>, and all
  three rectangles are \<open>patch_width\<close> wide.
\<close>

theorem resolve_heights_widths:
  "resolve cfg h w = Some g \<Longrightarrow>
     (mirror_src_y_end g - mirror_src_y_start g) + (adj_src_y_end g - adj_src_y_start g)
       = wm_y_end g - wm_y_start g \<and>
     wm_y_end g - wm_y_start g = patch_height cfg \<and>
     wm_x_end g - wm_x_start g = patch_width cfg \<and>
     mirror_src_x_end g - mirror_src_x_start g = patch_width cfg \<and>
     adj_src_x_end g - adj_src_x_start g = patch_width cfg"
  by (auto simp: resolve_Some_iff patch_geometry_def adjacent_patch_height_def)

theorem resolve_heights_widths_witness:
  "resolve default_config 166 220 = Some (patch_geometry default_config 166 220) \<and>
   (mirror_src_y_end (patch_geometry default_config 166 220)
      - mirror_src_y_start (patch_geometry default_config 166 220)) = 54 \<and>
   (adj_src_y_end (patch_geometry default_config 166 220)
      - adj_src_y_start (patch_geometry default_config 166 220)) = 56 \<and>
   wm_y_end (patch_geometry default_config 166 220)
      - wm_y_start (patch_geometry default_config 166 220) = 110 \<and>
   wm_x_end (patch_geometry default_config 166 220)
      - wm_x_start (patch_geometry default_config 166 220) = 110 \<and>
   mirror_src_x_end (patch_geometry default_config 166 220)
      - mirror_src_x_start (patch_geometry default_config 166 220) = 110 \<and>
   adj_src_x_end (patch_geometry default_config 166 220)
      - adj_src_x_start (patch_geometry default_config 166 220) = 110"
  using resolve_heights_widths [OF resolve_default_166] resolve_default_166
  by (simp add: patch_geometry_def default_config_def adjacent_patch_height_def)

text \<open>
  C5: for every configuration and frame size that the geometry check accepts, the
  target's bottom edge is \<open>height - patch_y\<close>, its top edge \<open>patch_height\<close> above, its
  left edge \<open>patch_x\<close> and its right edge \<open>patch_x + patch_width\<close>; the adjacent source
  has the target's bottom edge, its top edge \<open>patch_height - mirror_height\<close> above, its
  left edge is the target's right edge and its right edge \<open>patch_width\<close> further right.
\<close>

theorem target_and_adjacent_position:
  "resolve cfg h w = Some g \<Longrightarrow>
     wm_y_end g = int h - patch_y cfg \<and>
     wm_y_start g = wm_y_end g - patch_height cfg \<and>
     wm_x_start g = patch_x cfg \<and>
     wm_x_end g = patch_x cfg + patch_width cfg \<and>
     adj_src_y_end g = wm_y_end g \<and>
     adj_src_y_start g = wm_y_end g - (patch_height cfg - mirror_height cfg) \<and>
     adj_src_x_start g = wm_x_end g \<and>
     adj_src_x_end g = wm_x_end g + patch_width cfg"
  by (auto simp: resolve_Some_iff patch_geometry_def adjacent_patch_height_def)

theorem target_and_adjacent_position_witness:
  "resolve default_config 720 1280 = Some (patch_geometry default_config 720 1280) \<and>
   wm_y_end (patch_geometry default_config 720 1280) = 720 \<and>
   wm_y_start (patch_geometry default_config 720 1280) = 610 \<and>
   wm_x_start (patch_geometry default_config 720 1280) = 0 \<and>
   wm_x_end (patch_geometry default_config 720 1280) = 110 \<and>
   adj_src_y_end (patch_geometry default_config 720 1280) = 720 \<and>
   adj_src_y_start (patch_geometry default_config 720 1280) = 664 \<and>
   adj_src_x_start (patch_geometry default_config 720 1280) = 110 \<and>
   adj_src_x_end (patch_geometry default_config 720 1280) = 220"
  using target_and_adjacent_position [OF resolve_default_720] resolve_default_720
  by (simp add: default_config_def)

section \<open>The frame rate\<close>

declare bitlen.simps [simp del]

lemma bitlen_0: "bitlen 0 = 0"
  by (simp add: bitlen.simps)

lemma bitlen_1: "bitlen 1 = 1"
  by (simp add: bitlen.simps)

lemma bitlen_Suc_0: "bitlen (Suc 0) = 1"
  by (simp add: bitlen.simps)

lemma bitlen_numeral: "bitlen (numeral k) = Suc (bitlen (numeral k div 2))"
  by (subst bitlen.simps) simp

lemma floor_rat_numeral: "\<lfloor>numeral a / numeral b :: rat\<rfloor> = numeral a div numeral b"
  by (metis floor_divide_of_int_eq of_int_numeral)

lemmas round_double_eval =
  bitlen_0 bitlen_1 bitlen_Suc_0 bitlen_numeral floor_rat_numeral
  round_double_def round_finite_def binary_exponent_def pow2_def round_half_even_def

lemmas float_parse_eval =
  float_str_def float_value_def strip_with_def float_space_def is_digit_def
  nat_of_digits_def pow10_def take_sign_def parse_number_def lower_def

lemma split_no_sep: "sep \<notin> set s \<Longrightarrow> split sep s = [s]"
  by (induction s) auto

lemma split_two_has_sep: "split sep s = [n, d] \<Longrightarrow> sep \<in> set s"
  using split_no_sep [of sep s] by auto

lemma get_fps_rational:
  assumes "split CHR ''/'' (strip out) = [n, d]"
    and "float_str n = Returned num" and "float_str d = Returned denom"
  shows "get_fps out = (if denom \<noteq> Finite 0 then Returned (float_div num denom) else Returned num)"
  using assms split_two_has_sep [OF assms(1)]
  by (simp add: get_fps_def truediv_def)

lemma get_fps_decimal:
  "CHR ''/'' \<notin> set (strip out) \<Longrightarrow> get_fps out = float_str (strip out)"
  by (simp add: get_fps_def)

lemma get_fps_no_zero_division: "get_fps out \<noteq> Raised ZeroDivisionError"
proof -
  have "float_str s \<noteq> Raised ZeroDivisionError" for s
    by (simp add: float_str_def split: option.splits)
  then show ?thesis
    by (auto simp: get_fps_def truediv_def Let_def
        split: list.splits outcome.splits if_splits)
qed

lemma strip_plain:
  "strip ''30000/1001'' = ''30000/1001''" "strip (''30000/1001'' @ [CHR 0x0A]) = ''30000/1001''"
  "strip ''25'' = ''25''" "strip ''29.97'' = ''29.97''"
  "strip ''30/0'' = ''30/0''" "strip ''30/0.0'' = ''30/0.0''" "strip ''30/-0'' = ''30/-0''"
  "strip ('' 24000/1001'' @ [CHR 0x0D, CHR 0x0A]) = ''24000/1001''"
  "strip ''24/0e5'' = ''24/0e5''"
  by (simp_all add: strip_def strip_with_def py_space_def)

lemma float_str_examples:
  "float_str ''30000'' = Returned (Finite 30000)"
  "float_str ''1001'' = Returned (Finite 1001)"
  "float_str ''24000'' = Returned (Finite 24000)"
  "float_str ''25'' = Returned (Finite 25)"
  "float_str ''30'' = Returned (Finite 30)"
  "float_str ''24'' = Returned (Finite 24)"
  "float_str ''0'' = Returned (Finite 0)"
  "float_str ''0.0'' = Returned (Finite 0)"
  "float_str ''-0'' = Returned (Finite 0)"
  "float_str ''0e5'' = Returned (Finite 0)"
  by (simp_all add: float_parse_eval round_double_eval)

lemma float_str_29_97:
  "float_str ''29.97'' = Returned (Finite (1054475631502295 / 35184372088832))"
proof -
  have "float_str ''29.97'' = Returned (round_double (2997 / 100))"
    by (simp add: float_parse_eval)
  then show ?thesis by (simp add: round_double_eval)
qed

lemma round_quotients:
  "round_double (30000 / 1001) = Finite (1054476685978981 / 35184372088832)"
  "round_double (24000 / 1001) = Finite (6748650790265479 / 281474976710656)"
  by (simp_all add: round_double_eval)

lemma split_examples:
  "split CHR ''/'' ''30000/1001'' = [''30000'', ''1001'']"
  "split CHR ''/'' ''24000/1001'' = [''24000'', ''1001'']"
  "split CHR ''/'' ''30/0'' = [''30'', ''0'']"
  "split CHR ''/'' ''30/0.0'' = [''30'', ''0.0'']"
  "split CHR ''/'' ''30/-0'' = [''30'', ''-0'']"
  "split CHR ''/'' ''24/0e5'' = [''24'', ''0e5'']"
  by simp_all

text \<open>
  C8: an output of ffprobe that is, once stripped, a numerator, one slash and a
  denominator, both of which \<open>float\<close> reads and the second of which is not zero,
  resolves to the quotient of the two floats (correctly rounded); an output without a
  slash resolves to what \<open>float\<close> reads in it; no output makes \<open>get_fps\<close> raise
  \<open>ZeroDivisionError\<close>; \<open>30000/1001\<close>, with or without the line end that ffprobe
  prints, resolves to the double nearest to the quotient, which is within one
  ten-thousandth of 29.97; \<open>25\<close> resolves to 25.0 and \<open>29.97\<close> to the double nearest to
  29.97.
\<close>

theorem get_fps_division:
  "(split CHR ''/'' (strip out) = [n, d] \<and> float_str n = Returned num \<and>
    float_str d = Returned denom \<and> denom \<noteq> Finite 0 \<longrightarrow>
      get_fps out = Returned (float_div num denom)) \<and>
   (CHR ''/'' \<notin> set (strip out) \<longrightarrow> get_fps out = float_str (strip out)) \<and>
   get_fps out \<noteq> Raised ZeroDivisionError \<and>
   get_fps ''30000/1001'' = Returned (Finite (1054476685978981 / 35184372088832)) \<and>
   get_fps (''30000/1001'' @ [CHR 0x0A])
     = Returned (Finite (1054476685978981 / 35184372088832)) \<and>
   \<bar>1054476685978981 / 35184372088832 - 2997 / 100\<bar> < (1 / 10000 :: rat) \<and>
   get_fps ''25'' = Returned (Finite 25) \<and>
   get_fps ''29.97'' = Returned (Finite (1054475631502295 / 35184372088832))"
proof -
  have a: "get_fps ''30000/1001'' = Returned (Finite (1054476685978981 / 35184372088832))"
    using get_fps_rational [of "''30000/1001''" "''30000''" "''1001''" "Finite 30000" "Finite 1001"]
    by (simp add: strip_plain split_examples float_str_examples round_quotients)
  have b: "get_fps (''30000/1001'' @ [CHR 0x0A])
      = Returned (Finite (1054476685978981 / 35184372088832))"
    using get_fps_rational [of "''30000/1001'' @ [CHR 0x0A]" "''30000''" "''1001''"
        "Finite 30000" "Finite 1001"]
    by (simp only: strip_plain split_examples float_str_examples) (simp add: round_quotients)
  have c: "get_fps ''25'' = Returned (Finite 25)"
    using get_fps_decimal [of "''25''"] by (simp add: strip_plain float_str_examples)
  have c': "get_fps ''29.97'' = Returned (Finite (1054475631502295 / 35184372088832))"
    using get_fps_decimal [of "''29.97''"] by (simp add: strip_plain float_str_29_97)
  have d: "\<bar>1054476685978981 / 35184372088832 - 2997 / 100\<bar> < (1 / 10000 :: rat)"
    by simp
  have e: "split CHR ''/'' (strip out) = [n, d] \<and> float_str n = Returned num \<and>
    float_str d = Returned denom \<and> denom \<noteq> Finite 0 \<longrightarrow>
      get_fps out = Returned (float_div num denom)"
    by (auto simp: get_fps_rational)
  have f: "CHR ''/'' \<notin> set (strip out) \<longrightarrow> get_fps out = float_str (strip out)"
    by (simp add: get_fps_decimal)
  from a b c c' d e f get_fps_no_zero_division [of out] show ?thesis
    by (simp only: simp_thms)
qed

theorem get_fps_division_witness:
  "get_fps ('' 24000/1001'' @ [CHR 0x0D, CHR 0x0A])
     = Returned (Finite (6748650790265479 / 281474976710656)) \<and>
   get_fps ''25'' = float_str ''25''"
proof -
  note t = get_fps_division [of "'' 24000/1001'' @ [CHR 0x0D, CHR 0x0A]" "''24000''" "''1001''"
      "Finite 24000" "Finite 1001"]
  note u = get_fps_division [of "''25''"]
  have "get_fps ('' 24000/1001'' @ [CHR 0x0D, CHR 0x0A])
     = Returned (Finite (6748650790265479 / 281474976710656))"
    using t by (simp only: strip_plain split_examples float_str_examples) (simp add: round_quotients)
  moreover have "get_fps ''25'' = float_str ''25''"
    using u by (simp add: strip_plain)
  ultimately show ?thesis by simp
qed

text \<open>
  C10: an output of ffprobe that is, once stripped, a numerator, one slash and a
  denominator that \<open>float\<close> reads as zero (\<open>0\<close>, \<open>0.0\<close>, \<open>-0\<close>, ...) resolves to the
  numerator itself; \<open>30/0\<close> resolves to 30.0.
\<close>

theorem get_fps_zero_denominator:
  "(split CHR ''/'' (strip out) = [n, d] \<and> float_str n = Returned num \<and>
    float_str d = Returned (Finite 0) \<longrightarrow> get_fps out = Returned num) \<and>
   get_fps ''30/0'' = Returned (Finite 30) \<and>
   get_fps ''30/0.0'' = Returned (Finite 30) \<and>
   get_fps ''30/-0'' = Returned (Finite 30)"
proof -
  have a: "get_fps ''30/0'' = Returned (Finite 30)"
    using get_fps_rational [of "''30/0''" "''30''" "''0''" "Finite 30" "Finite 0"]
    by (simp add: strip_plain split_examples float_str_examples)
  have b: "get_fps ''30/0.0'' = Returned (Finite 30)"
    using get_fps_rational [of "''30/0.0''" "''30''" "''0.0''" "Finite 30" "Finite 0"]
    by (simp add: strip_plain split_examples float_str_examples)
  have c: "get_fps ''30/-0'' = Returned (Finite 30)"
    using get_fps_rational [of "''30/-0''" "''30''" "''-0''" "Finite 30" "Finite 0"]
    by (simp add: strip_plain split_examples float_str_examples)
  have e: "split CHR ''/'' (strip out) = [n, d] \<and> float_str n = Returned num \<and>
    float_str d = Returned (Finite 0) \<longrightarrow> get_fps out = Returned num"
    by (auto simp: get_fps_rational)
  from a b c e show ?thesis by (simp only: simp_thms)
qed

theorem get_fps_zero_denominator_witness:
  "split CHR ''/'' (strip ''24/0e5'') = [''24'', ''0e5''] \<and>
   float_str ''24'' = Returned (Finite 24) \<and> float_str ''0e5'' = Returned (Finite 0) \<and>
   get_fps ''24/0e5'' = Returned (Finite 24)"
proof -
  note t = get_fps_zero_denominator [of "''24/0e5''" "''24''" "''0e5''" "Finite 24"]
  have s: "split CHR ''/'' (strip ''24/0e5'') = [''24'', ''0e5'']"
    by (simp add: strip_plain split_examples)
  from t s have "get_fps ''24/0e5'' = Returned (Finite 24)"
    by (simp add: float_str_examples)
  with s show ?thesis by (simp add: float_str_examples)
qed

section \<open>Slices and blocks\<close>

lemma slice_index_in: "0 \<le> i \<Longrightarrow> i \<le> int n \<Longrightarrow> slice_index n i = nat i"
  by (auto simp: slice_index_def)

lemma py_slice_in:
  assumes "0 \<le> lo" "lo \<le> hi" "hi \<le> int (length xs)"
  shows "py_slice lo hi xs = take (nat (hi - lo)) (drop (nat lo) xs)"
  using assms by (simp add: py_slice_def slice_index_in nat_diff_distrib)

lemma length_py_slice_in:
  assumes "0 \<le> lo" "lo \<le> hi" "hi \<le> int (length xs)"
  shows "length (py_slice lo hi xs) = nat (hi - lo)"
  using assms by (simp add: py_slice_in)

lemma nth_py_slice_in:
  assumes "0 \<le> lo" "lo \<le> hi" "hi \<le> int (length xs)" "i < nat (hi - lo)"
  shows "py_slice lo hi xs ! i = xs ! (nat lo + i)"
  using assms by (simp add: py_slice_in)

lemma shape_wf:
  assumes "wf_frame a"
  shows "shape a = (length a, length (a ! 0), 3)"
  using assms by (cases a; cases "hd a") (auto simp: wf_frame_def shape_def)

lemma wf_row_length:
  assumes "wf_frame a" "shape a = (h, w, c)" "r < h"
  shows "length (a ! r) = w"
  using assms by (auto simp: wf_frame_def shape_def list_all_length split: list.splits)

lemma wf_dims:
  assumes "wf_frame a" "shape a = (h, w, c)"
  shows "h = length a" "0 < h" "0 < w" "c = 3"
  using assms shape_wf [OF assms(1)] by (auto simp: wf_frame_def)

lemma length_np_slice2:
  assumes "0 \<le> y0" "y0 \<le> y1" "y1 \<le> int (length a)"
  shows "length (np_slice2 a y0 y1 x0 x1) = nat (y1 - y0)"
  using assms by (simp add: np_slice2_def length_py_slice_in)

lemma nth_np_slice2_row:
  assumes "0 \<le> y0" "y0 \<le> y1" "y1 \<le> int (length a)" "i < nat (y1 - y0)"
  shows "np_slice2 a y0 y1 x0 x1 ! i = py_slice x0 x1 (a ! (nat y0 + i))"
  using assms by (simp add: np_slice2_def length_py_slice_in nth_py_slice_in)

lemma np_slice2_block:
  assumes wf: "wf_frame a" and sh: "shape a = (h, w, c)"
    and y: "0 \<le> y0" "y0 < y1" "y1 \<le> int h"
    and x: "0 \<le> x0" "x0 < x1" "x1 \<le> int w"
  shows "length (np_slice2 a y0 y1 x0 x1) = nat (y1 - y0)"
    and "i < nat (y1 - y0) \<Longrightarrow> length (np_slice2 a y0 y1 x0 x1 ! i) = nat (x1 - x0)"
    and "i < nat (y1 - y0) \<Longrightarrow> j < nat (x1 - x0) \<Longrightarrow>
           np_slice2 a y0 y1 x0 x1 ! i ! j = a ! (nat y0 + i) ! (nat x0 + j)"
proof -
  have h: "h = length a" using wf sh by (rule wf_dims)
  show l: "length (np_slice2 a y0 y1 x0 x1) = nat (y1 - y0)"
    using y h by (simp add: length_np_slice2)
  have row: "np_slice2 a y0 y1 x0 x1 ! i = py_slice x0 x1 (a ! (nat y0 + i))"
    if "i < nat (y1 - y0)" for i
    using y h that by (simp add: nth_np_slice2_row)
  have len: "length (a ! (nat y0 + i)) = w" if "i < nat (y1 - y0)" for i
    using wf sh y that by (intro wf_row_length [OF wf sh]) linarith
  show "i < nat (y1 - y0) \<Longrightarrow> length (np_slice2 a y0 y1 x0 x1 ! i) = nat (x1 - x0)"
    using x by (simp add: row len length_py_slice_in)
  show "i < nat (y1 - y0) \<Longrightarrow> j < nat (x1 - x0) \<Longrightarrow>
           np_slice2 a y0 y1 x0 x1 ! i ! j = a ! (nat y0 + i) ! (nat x0 + j)"
    using x by (simp add: row len nth_py_slice_in)
qed


lemma wf_pixel_length:
  assumes "wf_frame a" "shape a = (h, w, c)" "r < h" "col < w"
  shows "length (a ! r ! col) = 3"
  using assms by (auto simp: wf_frame_def shape_def list_all_length split: list.splits)

lemma shape_block:
  assumes "b \<noteq> []" "length (b ! 0) = k" "0 < k" "length (b ! 0 ! 0) = c"
  shows "shape b = (length b, k, c)"
  using assms by (cases b; cases "hd b") (auto simp: shape_def)

lemma shape_np_slice2:
  assumes wf: "wf_frame a" and sh: "shape a = (h, w, c)"
    and y: "0 \<le> y0" "y0 < y1" "y1 \<le> int h"
    and x: "0 \<le> x0" "x0 < x1" "x1 \<le> int w"
  shows "shape (np_slice2 a y0 y1 x0 x1) = (nat (y1 - y0), nat (x1 - x0), 3)"
proof -
  note b = np_slice2_block [OF wf sh y x]
  have p: "0 < nat (y1 - y0)" "0 < nat (x1 - x0)" using y x by auto
  have ne: "np_slice2 a y0 y1 x0 x1 \<noteq> []" using b(1) p by auto
  have "length (a ! nat y0 ! nat x0) = 3"
    using y x by (intro wf_pixel_length [OF wf sh]) auto
  then have "length (np_slice2 a y0 y1 x0 x1 ! 0 ! 0) = 3"
    using b(3) [of 0 0] p by simp
  with shape_block [OF ne b(2) [of 0]] p b(1) show ?thesis by simp
qed

lemma shape_rev_np_slice2:
  assumes wf: "wf_frame a" and sh: "shape a = (h, w, c)"
    and y: "0 \<le> y0" "y0 < y1" "y1 \<le> int h"
    and x: "0 \<le> x0" "x0 < x1" "x1 \<le> int w"
  shows "shape (rev (np_slice2 a y0 y1 x0 x1)) = (nat (y1 - y0), nat (x1 - x0), 3)"
proof -
  let ?m = "np_slice2 a y0 y1 x0 x1"
  note b = np_slice2_block [OF wf sh y x]
  have p: "0 < nat (y1 - y0)" "0 < nat (x1 - x0)" using y x by auto
  have ne: "rev ?m \<noteq> []" using b(1) p by auto
  have r0: "rev ?m ! 0 = ?m ! (nat (y1 - y0) - 1)"
    using b(1) p by (simp add: rev_nth)
  have l: "length (rev ?m ! 0) = nat (x1 - x0)"
    using p by (simp add: r0 b(2))
  have "length (a ! (nat y0 + (nat (y1 - y0) - 1)) ! nat x0) = 3"
    using y x by (intro wf_pixel_length [OF wf sh]) auto
  then have "length (rev ?m ! 0 ! 0) = 3"
    using b(3) [of "nat (y1 - y0) - 1" 0] p by (simp add: r0)
  with shape_block [OF ne l] p b(1) show ?thesis by simp
qed


lemma length_assigned: "length (assigned a y0 y1 x0 x1 v) = length a"
  by (simp add: assigned_def)

lemma length_assigned_row:
  "r < length a \<Longrightarrow> length (assigned a y0 y1 x0 x1 v ! r) = length (a ! r)"
  by (simp add: assigned_def)

lemma nth_assigned:
  "r < length a \<Longrightarrow> col < length (a ! r) \<Longrightarrow>
     assigned a y0 y1 x0 x1 v ! r ! col =
       (if slice_index (length a) y0 \<le> r \<and> r < slice_index (length a) y1 \<and>
           slice_index (length (a ! r)) x0 \<le> col \<and> col < slice_index (length (a ! r)) x1
        then v ! (r - slice_index (length a) y0) ! (col - slice_index (length (a ! r)) x0)
        else a ! r ! col)"
  by (simp add: assigned_def)

lemma resolve_SomeD:
  assumes "resolve cfg h w = Some g"
  shows "coordinates_ok g h w"
    and "g = patch_geometry cfg h w"
    and "mirror_src_y_end g - mirror_src_y_start g = mirror_height cfg"
    and "adj_src_y_end g - adj_src_y_start g = adjacent_patch_height cfg"
    and "wm_y_end g - wm_y_start g = patch_height cfg"
    and "mirror_src_x_end g - mirror_src_x_start g = patch_width cfg"
    and "adj_src_x_end g - adj_src_x_start g = patch_width cfg"
    and "wm_x_end g - wm_x_start g = patch_width cfg"
  using assms
  by (auto simp: resolve_def patch_geometry_def adjacent_patch_height_def split: if_splits)

lemma patch_array_reject:
  assumes "shape frame = (h, w, c)" "resolve cfg h w = None"
  shows "patch_array frame cfg = Returned None"
  using assms by (simp add: patch_array_def)

lemma patch_array_accept:
  assumes wf: "wf_frame frame" and sh: "shape frame = (h, w, c)"
    and g: "resolve cfg h w = Some g"
  shows "patch_array frame cfg =
     Returned (Some (assigned frame (wm_y_start g) (wm_y_end g) (wm_x_start g) (wm_x_end g)
        (patch_of frame g)))"
proof -
  note d = resolve_SomeD [OF g]
  from d(1) have
    my: "0 \<le> mirror_src_y_start g" "mirror_src_y_start g < mirror_src_y_end g"
        "mirror_src_y_end g \<le> int h" and
    mx: "0 \<le> mirror_src_x_start g" "mirror_src_x_start g < mirror_src_x_end g"
        "mirror_src_x_end g \<le> int w" and
    ay: "0 \<le> adj_src_y_start g" "adj_src_y_start g < adj_src_y_end g"
        "adj_src_y_end g \<le> int h" and
    ax: "0 \<le> adj_src_x_start g" "adj_src_x_start g < adj_src_x_end g"
        "adj_src_x_end g \<le> int w" and
    wy: "0 \<le> wm_y_start g" "wm_y_start g < wm_y_end g" "wm_y_end g \<le> int h" and
    wx: "0 \<le> wm_x_start g" "wm_x_start g < wm_x_end g" "wm_x_end g \<le> int w"
    by (simp_all add: coordinates_ok_def)
  let ?m = "np_slice2 frame (mirror_src_y_start g) (mirror_src_y_end g)
              (mirror_src_x_start g) (mirror_src_x_end g)"
  let ?a = "np_slice2 frame (adj_src_y_start g) (adj_src_y_end g)
              (adj_src_x_start g) (adj_src_x_end g)"
  have sm: "shape (rev ?m) = (nat (mirror_height cfg), nat (patch_width cfg), 3)"
    using shape_rev_np_slice2 [OF wf sh my mx] d(3) d(6) by simp
  have sa: "shape ?a = (nat (adjacent_patch_height cfg), nat (patch_width cfg), 3)"
    using shape_np_slice2 [OF wf sh ay ax] d(4) d(7) by simp
  have st: "shape (np_slice2 frame (wm_y_start g) (wm_y_end g) (wm_x_start g) (wm_x_end g))
      = (nat (patch_height cfg), nat (patch_width cfg), 3)"
    using shape_np_slice2 [OF wf sh wy wx] d(5) d(8) by simp
  have pos: "0 < mirror_height cfg" "0 < adjacent_patch_height cfg" "0 < patch_width cfg"
      "0 < patch_height cfg"
    using d(3-8) my mx ay ax wy wx by linarith+
  have ne: "rev ?m \<noteq> []" using sm pos by (auto simp: shape_def)
  have lp: "length (rev ?m @ ?a) = nat (patch_height cfg)"
    using sm sa pos by (auto simp: shape_def adjacent_patch_height_def)
  have sp: "shape (rev ?m @ ?a) = (nat (patch_height cfg), nat (patch_width cfg), 3)"
    using sm ne lp by (cases "rev ?m") (auto simp: shape_def)
  have vc: "vconcat (rev ?m) ?a = Some (rev ?m @ ?a)"
    by (simp add: vconcat_def sm sa)
  show ?thesis
    using pos
    by (simp add: patch_array_def sh g flip0_def sm sa vc sp st np_assign2_def patch_of_def)
qed


lemma uniform_nth:
  "uniform b n k \<longleftrightarrow>
     length b = n \<and> (\<forall>i<n. length (b ! i) = k \<and> (\<forall>j<k. length (b ! i ! j) = 3))"
  unfolding uniform_def by (auto simp: all_set_conv_all_nth)

lemma wf_frame_uniform:
  "wf_frame a \<longleftrightarrow> (\<exists>n k. 0 < n \<and> 0 < k \<and> uniform a n k)"
proof
  assume wf: "wf_frame a"
  obtain h w c where sh: "shape a = (h, w, c)" by (cases "shape a")
  have "uniform a h w"
    unfolding uniform_nth
    using wf_dims [OF wf sh] wf_row_length [OF wf sh] wf_pixel_length [OF wf sh] by auto
  with wf_dims [OF wf sh] show "\<exists>n k. 0 < n \<and> 0 < k \<and> uniform a n k" by blast
next
  assume "\<exists>n k. 0 < n \<and> 0 < k \<and> uniform a n k"
  then obtain n k where u: "0 < n" "0 < k" "uniform a n k" by blast
  then obtain r rs where a: "a = r # rs" by (cases a) (auto simp: uniform_def)
  with u show "wf_frame a"
    by (auto simp: wf_frame_def shape_def uniform_def list_all_iff)
qed

lemma uniform_shape:
  assumes "uniform a n k" "0 < n" "0 < k"
  shows "shape a = (n, k, 3)"
proof -
  from assms have "wf_frame a" by (auto simp: wf_frame_uniform)
  from shape_wf [OF this] assms show ?thesis by (auto simp: uniform_nth)
qed

lemma uniform_np_slice2:
  assumes wf: "wf_frame a" and sh: "shape a = (h, w, c)"
    and y: "0 \<le> y0" "y0 < y1" "y1 \<le> int h"
    and x: "0 \<le> x0" "x0 < x1" "x1 \<le> int w"
  shows "uniform (np_slice2 a y0 y1 x0 x1) (nat (y1 - y0)) (nat (x1 - x0))"
proof -
  note b = np_slice2_block [OF wf sh y x]
  have "length (np_slice2 a y0 y1 x0 x1 ! i ! j) = 3"
    if "i < nat (y1 - y0)" "j < nat (x1 - x0)" for i j
  proof -
    have "length (a ! (nat y0 + i) ! (nat x0 + j)) = 3"
      using that y x by (intro wf_pixel_length [OF wf sh]) linarith+
    with b(3) [OF that] show ?thesis by simp
  qed
  with b(1,2) show ?thesis by (simp add: uniform_nth)
qed

lemma uniform_rev: "uniform b n k \<Longrightarrow> uniform (rev b) n k"
  by (simp add: uniform_def)

lemma uniform_append: "uniform b n k \<Longrightarrow> uniform b' n' k \<Longrightarrow> uniform (b @ b') (n + n') k"
  by (auto simp: uniform_def)

lemma block_eqI:
  assumes "uniform A n k" "uniform B n k"
    and "\<And>i j. i < n \<Longrightarrow> j < k \<Longrightarrow> A ! i ! j = B ! i ! j"
  shows "A = B"
proof (rule nth_equalityI)
  show "length A = length B" using assms(1,2) by (simp add: uniform_nth)
next
  fix i assume "i < length A"
  with assms(1) have i: "i < n" by (simp add: uniform_nth)
  show "A ! i = B ! i"
  proof (rule nth_equalityI)
    show "length (A ! i) = length (B ! i)" using assms(1,2) i by (simp add: uniform_nth)
  next
    fix j assume "j < length (A ! i)"
    with assms(1) i have "j < k" by (simp add: uniform_nth)
    with assms(3) i show "A ! i ! j = B ! i ! j" by simp
  qed
qed


lemma nth_assigned_in:
  assumes wf: "wf_frame a" and sh: "shape a = (h, w, c)"
    and y: "0 \<le> y0" "y0 \<le> int h" "0 \<le> y1" "y1 \<le> int h"
    and x: "0 \<le> x0" "x0 \<le> int w" "0 \<le> x1" "x1 \<le> int w"
    and r: "r < h" and col: "col < w"
  shows "assigned a y0 y1 x0 x1 v ! r ! col =
     (if nat y0 \<le> r \<and> r < nat y1 \<and> nat x0 \<le> col \<and> col < nat x1
      then v ! (r - nat y0) ! (col - nat x0) else a ! r ! col)"
proof -
  have h: "h = length a" using wf sh by (rule wf_dims)
  have l: "length (a ! r) = w" using wf sh r by (rule wf_row_length)
  show ?thesis
    using r col y x by (simp add: nth_assigned h [symmetric] l slice_index_in)
qed

lemma uniform_patch_of:
  assumes wf: "wf_frame frame" and sh: "shape frame = (h, w, c)"
    and g: "resolve cfg h w = Some g"
  shows "uniform (patch_of frame g) (nat (patch_height cfg)) (nat (patch_width cfg))"
proof -
  note d = resolve_SomeD [OF g]
  from d(1) have
    my: "0 \<le> mirror_src_y_start g" "mirror_src_y_start g < mirror_src_y_end g"
        "mirror_src_y_end g \<le> int h" and
    mx: "0 \<le> mirror_src_x_start g" "mirror_src_x_start g < mirror_src_x_end g"
        "mirror_src_x_end g \<le> int w" and
    ay: "0 \<le> adj_src_y_start g" "adj_src_y_start g < adj_src_y_end g"
        "adj_src_y_end g \<le> int h" and
    ax: "0 \<le> adj_src_x_start g" "adj_src_x_start g < adj_src_x_end g"
        "adj_src_x_end g \<le> int w"
    by (simp_all add: coordinates_ok_def)
  have "uniform (patch_of frame g)
      (nat (mirror_height cfg) + nat (adjacent_patch_height cfg)) (nat (patch_width cfg))"
    unfolding patch_of_def
    using uniform_rev [OF uniform_np_slice2 [OF wf sh my mx]]
      uniform_np_slice2 [OF wf sh ay ax] d(3,4,6,7)
    by (intro uniform_append) simp_all
  moreover have "nat (mirror_height cfg) + nat (adjacent_patch_height cfg) = nat (patch_height cfg)"
    using d(3,4) my ay by (simp add: adjacent_patch_height_def)
  ultimately show ?thesis by simp
qed

lemma uniform_assigned:
  assumes wf: "wf_frame a" and sh: "shape a = (h, w, c)"
    and y: "0 \<le> y0" "y0 < y1" "y1 \<le> int h"
    and x: "0 \<le> x0" "x0 < x1" "x1 \<le> int w"
    and v: "uniform v (nat (y1 - y0)) (nat (x1 - x0))"
  shows "uniform (assigned a y0 y1 x0 x1 v) h w"
proof -
  have h: "h = length a" using wf sh by (rule wf_dims)
  have len: "length (assigned a y0 y1 x0 x1 v ! r) = w" if "r < h" for r
    using that h wf_row_length [OF wf sh that] by (simp add: length_assigned_row)
  have pix: "length (assigned a y0 y1 x0 x1 v ! r ! col) = 3" if "r < h" "col < w" for r col
  proof (cases "nat y0 \<le> r \<and> r < nat y1 \<and> nat x0 \<le> col \<and> col < nat x1")
    case True
    then have "r - nat y0 < nat (y1 - y0)" "col - nat x0 < nat (x1 - x0)"
      using y x by linarith+
    with v have "length (v ! (r - nat y0) ! (col - nat x0)) = 3"
      by (simp add: uniform_nth)
    moreover have "assigned a y0 y1 x0 x1 v ! r ! col = v ! (r - nat y0) ! (col - nat x0)"
      using nth_assigned_in [OF wf sh _ _ _ _ _ _ _ _ that, of y0 y1 x0 x1 v] y x True by simp
    ultimately show ?thesis by simp
  next
    case False
    have "assigned a y0 y1 x0 x1 v ! r ! col = a ! r ! col"
      using nth_assigned_in [OF wf sh _ _ _ _ _ _ _ _ that, of y0 y1 x0 x1 v] y x False by simp
    with wf_pixel_length [OF wf sh that] show ?thesis by simp
  qed
  show ?thesis
    using h len pix by (simp add: uniform_nth length_assigned)
qed

lemma np_slice2_assigned:
  assumes wf: "wf_frame a" and sh: "shape a = (h, w, c)"
    and y: "0 \<le> y0" "y0 < y1" "y1 \<le> int h"
    and x: "0 \<le> x0" "x0 < x1" "x1 \<le> int w"
    and v: "uniform v (nat (y1 - y0)) (nat (x1 - x0))"
  shows "np_slice2 (assigned a y0 y1 x0 x1 v) y0 y1 x0 x1 = v"
proof -
  let ?F = "assigned a y0 y1 x0 x1 v"
  have u: "uniform ?F h w" using assms by (rule uniform_assigned)
  have hw: "0 < h" "0 < w" using wf_dims [OF wf sh] by auto
  have wfF: "wf_frame ?F" using u hw by (auto simp: wf_frame_uniform)
  have shF: "shape ?F = (h, w, 3)" using u hw by (rule uniform_shape)
  show ?thesis
  proof (rule block_eqI [OF uniform_np_slice2 [OF wfF shF y x] v])
    fix i j assume ij: "i < nat (y1 - y0)" "j < nat (x1 - x0)"
    have r: "nat y0 + i < h" and cl: "nat x0 + j < w" using ij y x by linarith+
    have "np_slice2 ?F y0 y1 x0 x1 ! i ! j = ?F ! (nat y0 + i) ! (nat x0 + j)"
      using np_slice2_block(3) [OF wfF shF y x ij] .
    also have "\<dots> = v ! i ! j"
    proof -
      have "nat y0 + i < nat y1" "nat x0 + j < nat x1" using ij y x by linarith+
      then show ?thesis
        using nth_assigned_in [OF wf sh _ _ _ _ _ _ _ _ r cl, of y0 y1 x0 x1 v] y x
        by simp
    qed
    finally show "np_slice2 ?F y0 y1 x0 x1 ! i ! j = v ! i ! j" .
  qed
qed

lemma np_slice2_rows_take:
  assumes "0 \<le> y0" "y0 \<le> ym" "ym \<le> y1" "y1 \<le> int (length a)"
  shows "np_slice2 a y0 ym x0 x1 = take (nat (ym - y0)) (np_slice2 a y0 y1 x0 x1)"
  using assms by (simp add: np_slice2_def py_slice_in take_map min_def)

lemma np_slice2_rows_drop:
  assumes "0 \<le> y0" "y0 \<le> ym" "ym \<le> y1" "y1 \<le> int (length a)"
  shows "np_slice2 a ym y1 x0 x1 = drop (nat (ym - y0)) (np_slice2 a y0 y1 x0 x1)"
proof -
  have "nat ym = nat y0 + nat (ym - y0)" "nat (y1 - ym) = nat (y1 - y0) - nat (ym - y0)"
    using assms by linarith+
  then show ?thesis
    using assms by (simp add: np_slice2_def py_slice_in drop_map drop_take add.commute)
qed

lemma np_slice2_agree:
  assumes wa: "wf_frame a" and sa: "shape a = (h, w, c)"
    and wb: "wf_frame b" and sb: "shape b = (h, w, c)"
    and y: "0 \<le> y0" "y0 < y1" "y1 \<le> int h"
    and x: "0 \<le> x0" "x0 < x1" "x1 \<le> int w"
    and eq: "\<And>r col. nat y0 \<le> r \<Longrightarrow> r < nat y1 \<Longrightarrow> nat x0 \<le> col \<Longrightarrow> col < nat x1
               \<Longrightarrow> b ! r ! col = a ! r ! col"
  shows "np_slice2 b y0 y1 x0 x1 = np_slice2 a y0 y1 x0 x1"
proof (rule block_eqI [OF uniform_np_slice2 [OF wb sb y x] uniform_np_slice2 [OF wa sa y x]])
  fix i j assume ij: "i < nat (y1 - y0)" "j < nat (x1 - x0)"
  have "nat y0 + i < nat y1" "nat x0 + j < nat x1" using ij y x by linarith+
  then have "b ! (nat y0 + i) ! (nat x0 + j) = a ! (nat y0 + i) ! (nat x0 + j)"
    by (intro eq) simp_all
  then show "np_slice2 b y0 y1 x0 x1 ! i ! j = np_slice2 a y0 y1 x0 x1 ! i ! j"
    using np_slice2_block(3) [OF wb sb y x ij] np_slice2_block(3) [OF wa sa y x ij] by simp
qed

section \<open>The patched frame\<close>



lemma patch_frame_rejected:
  assumes "imread d (os_path_join input_dir fname) = Some frame"
    and "shape frame = (h, w, c)" and "resolve cfg h w = None"
  shows "patch_frame d fname input_dir cfg = (Returned False, d)"
  using assms by (simp add: patch_frame_def patch_array_reject)

lemma patch_frame_accepted:
  assumes "imread d (os_path_join input_dir fname) = Some frame"
    and "wf_frame frame" and "shape frame = (h, w, c)" and "resolve cfg h w = Some g"
  shows "patch_frame d fname input_dir cfg =
     (Returned True,
      imwrite d (os_path_join input_dir fname)
        (assigned frame (wm_y_start g) (wm_y_end g) (wm_x_start g) (wm_x_end g)
           (patch_of frame g)))"
  using assms by (simp add: patch_frame_def patch_array_accept)

lemma patch_frame_True_D:
  assumes ok: "patch_frame d fname input_dir cfg = (Returned True, d')"
    and rd: "imread d (os_path_join input_dir fname) = Some frame"
    and wf: "wf_frame frame" and sh: "shape frame = (h, w, c)"
  shows "resolve cfg h w = Some (patch_geometry cfg h w)"
    and "d' = imwrite d (os_path_join input_dir fname)
        (assigned frame (wm_y_start (patch_geometry cfg h w)) (wm_y_end (patch_geometry cfg h w))
           (wm_x_start (patch_geometry cfg h w)) (wm_x_end (patch_geometry cfg h w))
           (patch_of frame (patch_geometry cfg h w)))"
proof -
  show r: "resolve cfg h w = Some (patch_geometry cfg h w)"
  proof (cases "resolve cfg h w")
    case None
    from patch_frame_rejected [OF rd sh None] ok show ?thesis by simp
  next
    case (Some g)
    then show ?thesis by (simp add: resolve_SomeD(2) [OF Some])
  qed
  from patch_frame_accepted [OF rd wf sh r] ok
  show "d' = imwrite d (os_path_join input_dir fname)
        (assigned frame (wm_y_start (patch_geometry cfg h w)) (wm_y_end (patch_geometry cfg h w))
           (wm_x_start (patch_geometry cfg h w)) (wm_x_end (patch_geometry cfg h w))
           (patch_of frame (patch_geometry cfg h w)))"
    by simp
qed

lemma imread_imwrite: "imread (imwrite d p a) p = Some a"
  by (simp add: imread_def imwrite_def)

text \<open>
  C2: when \<open>patch_frame\<close> returns \<open>True\<close> for a frame, the file holds a frame whose
  target rectangle has, in its top \<open>mirror_height\<close> rows, the mirror-source block of
  the frame that was read with its rows in reverse order (columns unchanged), and in its
  bottom \<open>patch_height - mirror_height\<close> rows the adjacent-source block of the frame that
  was read, pixel for pixel and channel for channel; the two parts meet, so every pixel
  of the target is a copy of a pixel of one of the two source blocks.
\<close>

theorem patch_frame_target_content:
  assumes ok: "patch_frame d fname input_dir cfg = (Returned True, d')"
    and rd: "imread d (os_path_join input_dir fname) = Some frame"
    and wf: "wf_frame frame" and sh: "shape frame = (h, w, c)"
    and gd: "g = patch_geometry cfg h w"
  shows "\<exists>frame'. imread d' (os_path_join input_dir fname) = Some frame' \<and>
     np_slice2 frame' (wm_y_start g) (wm_y_start g + mirror_height cfg)
         (wm_x_start g) (wm_x_end g)
       = rev (np_slice2 frame (mirror_src_y_start g) (mirror_src_y_end g)
                (mirror_src_x_start g) (mirror_src_x_end g)) \<and>
     np_slice2 frame' (wm_y_end g - adjacent_patch_height cfg) (wm_y_end g)
         (wm_x_start g) (wm_x_end g)
       = np_slice2 frame (adj_src_y_start g) (adj_src_y_end g)
           (adj_src_x_start g) (adj_src_x_end g) \<and>
     wm_y_start g + mirror_height cfg = wm_y_end g - adjacent_patch_height cfg"
proof -
  note t = patch_frame_True_D [OF ok rd wf sh]
  have g: "resolve cfg h w = Some g" using t(1) gd by simp
  note e = resolve_SomeD [OF g]
  from e(1) have
    my: "0 \<le> mirror_src_y_start g" "mirror_src_y_start g < mirror_src_y_end g"
        "mirror_src_y_end g \<le> int h" and
    mx: "0 \<le> mirror_src_x_start g" "mirror_src_x_start g < mirror_src_x_end g"
        "mirror_src_x_end g \<le> int w" and
    wy: "0 \<le> wm_y_start g" "wm_y_start g < wm_y_end g" "wm_y_end g \<le> int h" and
    wx: "0 \<le> wm_x_start g" "wm_x_start g < wm_x_end g" "wm_x_end g \<le> int w"
    by (simp_all add: coordinates_ok_def)
  let ?m = "np_slice2 frame (mirror_src_y_start g) (mirror_src_y_end g)
              (mirror_src_x_start g) (mirror_src_x_end g)"
  let ?a = "np_slice2 frame (adj_src_y_start g) (adj_src_y_end g)
              (adj_src_x_start g) (adj_src_x_end g)"
  let ?F = "assigned frame (wm_y_start g) (wm_y_end g) (wm_x_start g) (wm_x_end g)
              (patch_of frame g)"
  have u: "uniform (patch_of frame g) (nat (wm_y_end g - wm_y_start g))
      (nat (wm_x_end g - wm_x_start g))"
    using uniform_patch_of [OF wf sh g] e(5,8) by simp
  have whole: "np_slice2 ?F (wm_y_start g) (wm_y_end g) (wm_x_start g) (wm_x_end g)
      = rev ?m @ ?a"
    using np_slice2_assigned [OF wf sh wy wx u] by (simp add: patch_of_def)
  have lm: "length (rev ?m) = nat (mirror_height cfg)"
    using my e(3) by (simp add: np_slice2_def length_py_slice_in wf_dims(1) [OF wf sh, symmetric])
  have mid: "wm_y_start g + mirror_height cfg = wm_y_end g - adjacent_patch_height cfg"
    using e(5) by (simp add: adjacent_patch_height_def)
  have mh: "0 \<le> mirror_height cfg" "0 \<le> adjacent_patch_height cfg"
    using e(3,4) my e(1) by (auto simp: coordinates_ok_def)
  have lF: "length ?F = h"
    using wf_dims(1) [OF wf sh] by (simp add: length_assigned)
  have top: "np_slice2 ?F (wm_y_start g) (wm_y_start g + mirror_height cfg)
      (wm_x_start g) (wm_x_end g) = rev ?m"
    using np_slice2_rows_take [of "wm_y_start g" "wm_y_start g + mirror_height cfg"
        "wm_y_end g" ?F "wm_x_start g" "wm_x_end g"] wy mh mid lF lm
    by (simp add: whole)
  have bot: "np_slice2 ?F (wm_y_end g - adjacent_patch_height cfg) (wm_y_end g)
      (wm_x_start g) (wm_x_end g) = ?a"
    using np_slice2_rows_drop [of "wm_y_start g" "wm_y_start g + mirror_height cfg"
        "wm_y_end g" ?F "wm_x_start g" "wm_x_end g"] wy mh mid lF lm
    by (simp add: whole)
  have "imread d' (os_path_join input_dir fname) = Some ?F"
    using t(2) gd by (simp add: imread_imwrite)
  with top bot mid show ?thesis by blast
qed

text \<open>
  C9, as the specification states it, fails: it says that the mirror-source region is
  only read, and for an accepted configuration whose mirror source overlaps the target
  (here \<open>mirror_offset = 0\<close>: mirror source and target both begin at row 3) the rows 3
  and 4 of the mirror-source region are overwritten, with each other.
\<close>

theorem patch_frame_mirror_overlap_counterexample:
  "fst (patch_frame example_disk ''frame_00001.png'' ''frames'' overlap_config) = Returned True \<and>
   mirror_src_y_start (patch_geometry overlap_config 7 6) = 3 \<and>
   mirror_src_y_end (patch_geometry overlap_config 7 6) = 5 \<and>
   mirror_src_x_start (patch_geometry overlap_config 7 6) = 1 \<and>
   mirror_src_x_end (patch_geometry overlap_config 7 6) = 3 \<and>
   wm_y_start (patch_geometry overlap_config 7 6) = 3 \<and>
   wm_y_end (patch_geometry overlap_config 7 6) = 6 \<and>
   imread example_disk ''frames/frame_00001.png'' = Some example_frame \<and>
   np_slice2 example_frame 3 5 1 3 = [[[3, 1, 31], [3, 2, 32]], [[4, 1, 41], [4, 2, 42]]] \<and>
   np_slice2
     (the (imread (snd (patch_frame example_disk ''frame_00001.png'' ''frames'' overlap_config))
        ''frames/frame_00001.png'')) 3 5 1 3
     = [[[4, 1, 41], [4, 2, 42]], [[3, 1, 31], [3, 2, 32]]]"
  by code_simp

text \<open>
  C9, amended: when \<open>patch_frame\<close> returns \<open>True\<close> for a frame, the frame written back
  has the shape (height, width, channel count) of the frame that was read, and every
  pixel outside the target rectangle is the pixel that was read, so that only pixels of
  the target rectangle differ; no other file changes; the adjacent-source region is
  only read (it is as it was), and so is the mirror-source region whenever its rows lie
  outside the rows of the target, as they do for \<open>mirror_height \<le> mirror_offset\<close>.
  (Where the mirror source overlaps the target, the pixels they share are target pixels
  and are overwritten.)
\<close>

theorem patch_frame_outside_unchanged:
  assumes ok: "patch_frame d fname input_dir cfg = (Returned True, d')"
    and rd: "imread d (os_path_join input_dir fname) = Some frame"
    and wf: "wf_frame frame" and sh: "shape frame = (h, w, c)"
    and gd: "g = patch_geometry cfg h w"
  shows "\<exists>frame'. imread d' (os_path_join input_dir fname) = Some frame' \<and>
     wf_frame frame' \<and> shape frame' = shape frame \<and>
     (\<forall>r col. r < h \<and> col < w \<and>
         \<not> (wm_y_start g \<le> int r \<and> int r < wm_y_end g \<and>
            wm_x_start g \<le> int col \<and> int col < wm_x_end g)
        \<longrightarrow> frame' ! r ! col = frame ! r ! col) \<and>
     (\<forall>p. p \<noteq> os_path_join input_dir fname \<longrightarrow> d' p = d p) \<and>
     np_slice2 frame' (adj_src_y_start g) (adj_src_y_end g) (adj_src_x_start g) (adj_src_x_end g)
       = np_slice2 frame (adj_src_y_start g) (adj_src_y_end g)
           (adj_src_x_start g) (adj_src_x_end g) \<and>
     (mirror_src_y_end g \<le> wm_y_start g \<or> wm_y_end g \<le> mirror_src_y_start g \<longrightarrow>
        np_slice2 frame' (mirror_src_y_start g) (mirror_src_y_end g)
            (mirror_src_x_start g) (mirror_src_x_end g)
          = np_slice2 frame (mirror_src_y_start g) (mirror_src_y_end g)
              (mirror_src_x_start g) (mirror_src_x_end g)) \<and>
     (mirror_height cfg \<le> mirror_offset cfg \<longrightarrow> mirror_src_y_end g \<le> wm_y_start g)"
proof -
  note t = patch_frame_True_D [OF ok rd wf sh]
  have g: "resolve cfg h w = Some g" using t(1) gd by simp
  note e = resolve_SomeD [OF g]
  from e(1) have
    my: "0 \<le> mirror_src_y_start g" "mirror_src_y_start g < mirror_src_y_end g"
        "mirror_src_y_end g \<le> int h" and
    mx: "0 \<le> mirror_src_x_start g" "mirror_src_x_start g < mirror_src_x_end g"
        "mirror_src_x_end g \<le> int w" and
    ay: "0 \<le> adj_src_y_start g" "adj_src_y_start g < adj_src_y_end g"
        "adj_src_y_end g \<le> int h" and
    ax: "0 \<le> adj_src_x_start g" "adj_src_x_start g < adj_src_x_end g"
        "adj_src_x_end g \<le> int w" and
    wy: "0 \<le> wm_y_start g" "wm_y_start g < wm_y_end g" "wm_y_end g \<le> int h" and
    wx: "0 \<le> wm_x_start g" "wm_x_start g < wm_x_end g" "wm_x_end g \<le> int w"
    by (simp_all add: coordinates_ok_def)
  let ?F = "assigned frame (wm_y_start g) (wm_y_end g) (wm_x_start g) (wm_x_end g)
              (patch_of frame g)"
  have u: "uniform (patch_of frame g) (nat (wm_y_end g - wm_y_start g))
      (nat (wm_x_end g - wm_x_start g))"
    using uniform_patch_of [OF wf sh g] e(5,8) by simp
  have uF: "uniform ?F h w" using wf sh wy wx u by (rule uniform_assigned)
  have hw: "0 < h" "0 < w" "c = 3" using wf_dims [OF wf sh] by auto
  have wfF: "wf_frame ?F" using uF hw by (auto simp: wf_frame_uniform)
  have shF: "shape ?F = shape frame" using uniform_shape [OF uF hw(1,2)] sh hw by simp
  have shF': "shape ?F = (h, w, c)" using shF sh by simp
  have out: "?F ! r ! col = frame ! r ! col"
    if "r < h" "col < w"
      "\<not> (wm_y_start g \<le> int r \<and> int r < wm_y_end g \<and>
          wm_x_start g \<le> int col \<and> int col < wm_x_end g)" for r col
  proof -
    have n: "\<not> (nat (wm_y_start g) \<le> r \<and> r < nat (wm_y_end g) \<and>
        nat (wm_x_start g) \<le> col \<and> col < nat (wm_x_end g))"
      using that(3) wy wx by linarith
    have "?F ! r ! col =
        (if nat (wm_y_start g) \<le> r \<and> r < nat (wm_y_end g) \<and>
            nat (wm_x_start g) \<le> col \<and> col < nat (wm_x_end g)
         then patch_of frame g ! (r - nat (wm_y_start g)) ! (col - nat (wm_x_start g))
         else frame ! r ! col)"
      using wy wx by (intro nth_assigned_in [OF wf sh _ _ _ _ _ _ _ _ that(1,2)]) simp_all
    with n show ?thesis by (simp only: if_not_P if_False)
  qed
  have rdF: "imread d' (os_path_join input_dir fname) = Some ?F"
    using t(2) gd by (simp add: imread_imwrite)
  have other: "d' p = d p" if "p \<noteq> os_path_join input_dir fname" for p
    using t(2) that by (simp add: imwrite_def)
  have ax_right: "adj_src_x_start g = wm_x_end g"
    using e(2) by (simp add: patch_geometry_def)
  have adj: "np_slice2 ?F (adj_src_y_start g) (adj_src_y_end g)
        (adj_src_x_start g) (adj_src_x_end g)
      = np_slice2 frame (adj_src_y_start g) (adj_src_y_end g)
          (adj_src_x_start g) (adj_src_x_end g)"
  proof (rule np_slice2_agree [OF wf sh wfF shF' ay ax])
    fix r col
    assume rc: "nat (adj_src_y_start g) \<le> r" "r < nat (adj_src_y_end g)"
      "nat (adj_src_x_start g) \<le> col" "col < nat (adj_src_x_end g)"
    have "r < h" "col < w" using rc ay ax by linarith+
    moreover have "\<not> int col < wm_x_end g" using rc(3) ax ax_right by linarith
    ultimately show "?F ! r ! col = frame ! r ! col" by (intro out) blast+
  qed
  have mir: "np_slice2 ?F (mirror_src_y_start g) (mirror_src_y_end g)
        (mirror_src_x_start g) (mirror_src_x_end g)
      = np_slice2 frame (mirror_src_y_start g) (mirror_src_y_end g)
          (mirror_src_x_start g) (mirror_src_x_end g)"
    if dis: "mirror_src_y_end g \<le> wm_y_start g \<or> wm_y_end g \<le> mirror_src_y_start g"
  proof (rule np_slice2_agree [OF wf sh wfF shF' my mx])
    fix r col
    assume rc: "nat (mirror_src_y_start g) \<le> r" "r < nat (mirror_src_y_end g)"
      "nat (mirror_src_x_start g) \<le> col" "col < nat (mirror_src_x_end g)"
    have "r < h" "col < w" using rc my mx by linarith+
    moreover have "\<not> (wm_y_start g \<le> int r \<and> int r < wm_y_end g)"
      using rc(1,2) my dis by linarith
    ultimately show "?F ! r ! col = frame ! r ! col" by (intro out) blast+
  qed
  have above: "mirror_src_y_end g \<le> wm_y_start g" if "mirror_height cfg \<le> mirror_offset cfg"
    using e(2) that by (simp add: patch_geometry_def)
  from rdF wfF shF out other adj mir above show ?thesis by blast
qed

text \<open>
  C6: whenever \<open>patch_frame\<close> returns \<open>False\<close>, the disk is exactly as it was; it
  returns \<open>False\<close> with the disk untouched for a file that cannot be read and for a frame
  whose geometry is rejected (too small, a rectangle out of bounds or degenerate).
\<close>

theorem patch_frame_reject_no_mutation:
  "(fst (patch_frame d fname input_dir cfg) = Returned False \<longrightarrow>
      snd (patch_frame d fname input_dir cfg) = d) \<and>
   (imread d (os_path_join input_dir fname) = None \<longrightarrow>
      patch_frame d fname input_dir cfg = (Returned False, d)) \<and>
   (imread d (os_path_join input_dir fname) = Some frame \<and> shape frame = (h, w, c) \<and>
    resolve cfg h w = None \<longrightarrow>
      patch_frame d fname input_dir cfg = (Returned False, d))"
  by (auto simp: patch_frame_def patch_array_reject Let_def split: option.splits outcome.splits)

section \<open>The batch\<close>











section \<open>The theorems at the example inputs\<close>

lemma example_frame_wf: "wf_frame example_frame"
  by code_simp

lemma example_frame_shape: "shape example_frame = (7, 6, 3)"
  by code_simp




lemma example_read:
  "imread example_disk (os_path_join ''frames'' ''frame_00001.png'') = Some example_frame"
  by (simp add: imread_def os_path_join_def example_disk_def)

lemma example_resolve:
  "resolve example_config 7 6 = Some (patch_geometry example_config 7 6)"
  by (simp add: resolve_def coordinates_ok_def patch_geometry_def example_config_def
      adjacent_patch_height_def)

lemma example_patched:
  "patch_frame example_disk ''frame_00001.png'' ''frames'' example_config =
     (Returned True, snd (patch_frame example_disk ''frame_00001.png'' ''frames'' example_config))"
  using patch_frame_accepted [OF example_read example_frame_wf example_frame_shape example_resolve]
  by simp


theorem patch_frame_target_content_witness:
  "\<exists>frame'.
     imread (snd (patch_frame example_disk ''frame_00001.png'' ''frames'' example_config))
       ''frames/frame_00001.png'' = Some frame' \<and>
     np_slice2 frame' 3 5 1 3 = [[[2, 1, 21], [2, 2, 22]], [[1, 1, 11], [1, 2, 12]]] \<and>
     np_slice2 example_frame 1 3 1 3 = [[[1, 1, 11], [1, 2, 12]], [[2, 1, 21], [2, 2, 22]]] \<and>
     np_slice2 frame' 5 6 1 3 = [[[5, 3, 53], [5, 4, 54]]] \<and>
     np_slice2 example_frame 5 6 3 5 = [[[5, 3, 53], [5, 4, 54]]]"
proof -
  have m: "np_slice2 example_frame 1 3 1 3 = [[[1, 1, 11], [1, 2, 12]], [[2, 1, 21], [2, 2, 22]]]"
    by code_simp
  have a: "np_slice2 example_frame 5 6 3 5 = [[[5, 3, 53], [5, 4, 54]]]"
    by code_simp
  have j: "os_path_join ''frames'' ''frame_00001.png'' = ''frames/frame_00001.png''"
    by (simp add: os_path_join_def)
  from patch_frame_target_content [OF example_patched example_read example_frame_wf
      example_frame_shape refl]
  show ?thesis
    by (simp add: j m a patch_geometry_def example_config_def adjacent_patch_height_def)
qed

theorem patch_frame_outside_unchanged_witness:
  "\<exists>frame'.
     imread (snd (patch_frame example_disk ''frame_00001.png'' ''frames'' example_config))
       ''frames/frame_00001.png'' = Some frame' \<and>
     shape frame' = (7, 6, 3) \<and>
     frame' ! 2 ! 1 = [2, 1, 21] \<and> frame' ! 3 ! 0 = [3, 0, 30] \<and>
     frame' ! 5 ! 3 = [5, 3, 53] \<and> frame' ! 6 ! 2 = [6, 2, 62] \<and>
     snd (patch_frame example_disk ''frame_00001.png'' ''frames'' example_config)
       ''frames/frame_00002.png'' = Some (Png example_frame) \<and>
     np_slice2 frame' 5 6 3 5 = [[[5, 3, 53], [5, 4, 54]]] \<and>
     mirror_height example_config \<le> mirror_offset example_config \<and>
     np_slice2 frame' 1 3 1 3 = [[[1, 1, 11], [1, 2, 12]], [[2, 1, 21], [2, 2, 22]]]"
proof -
  have j: "os_path_join ''frames'' ''frame_00001.png'' = ''frames/frame_00001.png''"
    by (simp add: os_path_join_def)
  have d2: "example_disk ''frames/frame_00002.png'' = Some (Png example_frame)"
    by (simp add: example_disk_def)
  have px: "example_frame ! 2 ! 1 = [2, 1, 21]" "example_frame ! 3 ! 0 = [3, 0, 30]"
    "example_frame ! 5 ! 3 = [5, 3, 53]" "example_frame ! 6 ! 2 = [6, 2, 62]"
    by (simp_all add: example_frame_def)
  have g: "wm_y_start (patch_geometry example_config 7 6) = 3"
    "wm_y_end (patch_geometry example_config 7 6) = 6"
    "wm_x_start (patch_geometry example_config 7 6) = 1"
    "wm_x_end (patch_geometry example_config 7 6) = 3"
    "adj_src_y_start (patch_geometry example_config 7 6) = 5"
    "adj_src_y_end (patch_geometry example_config 7 6) = 6"
    "adj_src_x_start (patch_geometry example_config 7 6) = 3"
    "adj_src_x_end (patch_geometry example_config 7 6) = 5"
    "mirror_src_y_start (patch_geometry example_config 7 6) = 1"
    "mirror_src_y_end (patch_geometry example_config 7 6) = 3"
    "mirror_src_x_start (patch_geometry example_config 7 6) = 1"
    "mirror_src_x_end (patch_geometry example_config 7 6) = 3"
    by (simp_all add: patch_geometry_def example_config_def adjacent_patch_height_def)
  have mo: "mirror_height example_config \<le> mirror_offset example_config"
    by (simp add: example_config_def)
  have m: "np_slice2 example_frame 1 3 1 3 = [[[1, 1, 11], [1, 2, 12]], [[2, 1, 21], [2, 2, 22]]]"
    by code_simp
  have a: "np_slice2 example_frame 5 6 3 5 = [[[5, 3, 53], [5, 4, 54]]]"
    by code_simp
  from patch_frame_outside_unchanged [OF example_patched example_read example_frame_wf
      example_frame_shape refl, unfolded g]
  obtain frame' where f:
    "imread (snd (patch_frame example_disk ''frame_00001.png'' ''frames'' example_config))
       (os_path_join ''frames'' ''frame_00001.png'') = Some frame'"
    "shape frame' = shape example_frame"
    "\<forall>r col. r < 7 \<and> col < 6 \<and>
         \<not> (3 \<le> int r \<and> int r < 6 \<and> 1 \<le> int col \<and> int col < 3)
        \<longrightarrow> frame' ! r ! col = example_frame ! r ! col"
    "\<forall>p. p \<noteq> os_path_join ''frames'' ''frame_00001.png'' \<longrightarrow>
       snd (patch_frame example_disk ''frame_00001.png'' ''frames'' example_config) p
         = example_disk p"
    "np_slice2 frame' 5 6 3 5 = np_slice2 example_frame 5 6 3 5"
    "3 \<le> (3 :: int) \<or> (6 :: int) \<le> 1 \<longrightarrow>
       np_slice2 frame' 1 3 1 3 = np_slice2 example_frame 1 3 1 3"
    by blast
  have "frame' ! 2 ! 1 = [2, 1, 21]" using f(3) [rule_format, of 2 1] px by simp
  moreover have "frame' ! 3 ! 0 = [3, 0, 30]" using f(3) [rule_format, of 3 0] px by simp
  moreover have "frame' ! 5 ! 3 = [5, 3, 53]" using f(3) [rule_format, of 5 3] px by simp
  moreover have "frame' ! 6 ! 2 = [6, 2, 62]" using f(3) [rule_format, of 6 2] px by simp
  moreover have "snd (patch_frame example_disk ''frame_00001.png'' ''frames'' example_config)
       ''frames/frame_00002.png'' = Some (Png example_frame)"
    using f(4) [rule_format, of "''frames/frame_00002.png''"] by (simp add: j d2)
  moreover have "np_slice2 frame' 5 6 3 5 = [[[5, 3, 53], [5, 4, 54]]]"
    using f(5) a by simp
  moreover have "np_slice2 frame' 1 3 1 3 = [[[1, 1, 11], [1, 2, 12]], [[2, 1, 21], [2, 2, 22]]]"
    using f(6) m by simp
  ultimately show ?thesis
    using f(1,2) mo by (auto simp: j example_frame_shape)
qed

theorem patch_frame_reject_no_mutation_witness:
  "patch_frame example_disk ''frame_00003.png'' ''frames'' example_config
     = (Returned False, example_disk) \<and>
   patch_frame example_disk ''frame_00001.png'' ''frames'' default_config
     = (Returned False, example_disk) \<and>
   snd (patch_frame example_disk ''frame_00001.png'' ''frames'' default_config) = example_disk"
proof -
  have u: "imread example_disk (os_path_join ''frames'' ''frame_00003.png'') = None"
    by (simp add: imread_def os_path_join_def example_disk_def)
  have r: "resolve default_config 7 6 = None"
    by (simp add: resolve_def default_config_def)
  note t1 = patch_frame_reject_no_mutation [of example_disk "''frame_00003.png''" "''frames''"
      example_config example_frame 7 6 3]
  note t2 = patch_frame_reject_no_mutation [of example_disk "''frame_00001.png''" "''frames''"
      default_config example_frame 7 6 3]
  from t1 u have a: "patch_frame example_disk ''frame_00003.png'' ''frames'' example_config
     = (Returned False, example_disk)" by simp
  from t2 example_read example_frame_shape r
  have b: "patch_frame example_disk ''frame_00001.png'' ''frames'' default_config
     = (Returned False, example_disk)" by simp
  from t2 b have "snd (patch_frame example_disk ''frame_00001.png'' ''frames'' default_config)
     = example_disk" by simp
  with a b show ?thesis by simp
qed

end
